theory Spec2Isabelle
  imports Complex_Main "HOL-Library.AList"
begin

section \<open>Python errors and results\<close>

text \<open>
  Every exception the modelled code can raise is a value of \<open>error\<close>; a function that
  may raise returns \<open>error + 'a\<close>, with \<open>Inl\<close> for the exception.
\<close>

datatype error =
    NotImplementedError
  | ValueError
  | IndexError
  | AttributeError
  | TypeError
  | ZeroDivisionError
  | OutsideModel

text \<open>
  \<open>OutsideModel\<close> is not a Python exception: it marks a call whose NumPy semantics
  this development does not cover (\<open>np.dot\<close> on operands that are not both
  two-dimensional).
\<close>

definition bindE :: "error + 'a \<Rightarrow> ('a \<Rightarrow> error + 'b) \<Rightarrow> error + 'b" where
  "bindE m f = (case m of Inl e \<Rightarrow> Inl e | Inr x \<Rightarrow> f x)"

section \<open>Arrays\<close>

text \<open>
  A NumPy array is its shape together with its elements in C (row-major) order.
  Floating-point elements are modelled by real numbers.
\<close>

record 'a ndarray =
  shape :: "nat list"
  data :: "'a list"

definition nd_wf :: "'a ndarray \<Rightarrow> bool" where
  "nd_wf a \<longleftrightarrow> length (data a) = prod_list (shape a)"

text \<open>Multi-index of a flat position, and back (C order).\<close>

fun unravel :: "nat list \<Rightarrow> nat \<Rightarrow> nat list" where
  "unravel [] p = []"
| "unravel (d # ds) p = (p div prod_list ds) # unravel ds (p mod prod_list ds)"

fun ravel :: "nat list \<Rightarrow> nat list \<Rightarrow> nat" where
  "ravel (d # ds) (i # js) = i * prod_list ds + ravel ds js"
| "ravel _ _ = 0"

text \<open>
  NumPy broadcasting: shapes are aligned at their last axis, the shorter one is extended
  with leading ones, and two sides are compatible when equal or when one of them is 1.
\<close>

fun broadcast_dims :: "nat list \<Rightarrow> nat list \<Rightarrow> nat list option" where
  "broadcast_dims [] [] = Some []"
| "broadcast_dims (a # as) (b # bs) =
     (if a = b \<or> b = 1 then map_option ((#) a) (broadcast_dims as bs)
      else if a = 1 then map_option ((#) b) (broadcast_dims as bs)
      else None)"
| "broadcast_dims _ _ = None"

definition broadcast_shapes :: "nat list \<Rightarrow> nat list \<Rightarrow> nat list option" where
  "broadcast_shapes s t =
     (let n = max (length s) (length t)
      in broadcast_dims (replicate (n - length s) 1 @ s) (replicate (n - length t) 1 @ t))"

definition bc_index :: "nat list \<Rightarrow> nat list \<Rightarrow> nat" where
  "bc_index s idx =
     ravel s (map2 (\<lambda>d i. if d = 1 then 0 else i) s (drop (length idx - length s) idx))"

definition nd_binop :: "('a \<Rightarrow> 'b \<Rightarrow> 'c) \<Rightarrow> 'a ndarray \<Rightarrow> 'b ndarray \<Rightarrow> error + 'c ndarray" where
  "nd_binop f a b =
     (case broadcast_shapes (shape a) (shape b) of
        None \<Rightarrow> Inl ValueError
      | Some s \<Rightarrow>
          Inr \<lparr>shape = s,
               data = map (\<lambda>p. f (data a ! bc_index (shape a) (unravel s p))
                                  (data b ! bc_index (shape b) (unravel s p)))
                          [0..<prod_list s]\<rparr>)"

text \<open>An in-place operator (\<open>a += b\<close>) cannot change the shape of its left operand.\<close>

definition nd_inplace :: "('a \<Rightarrow> 'b \<Rightarrow> 'a) \<Rightarrow> 'a ndarray \<Rightarrow> 'b ndarray \<Rightarrow> error + 'a ndarray" where
  "nd_inplace f a b =
     bindE (nd_binop f a b) (\<lambda>r. if shape r = shape a then Inr r else Inl ValueError)"

definition nd_map :: "('a \<Rightarrow> 'b) \<Rightarrow> 'a ndarray \<Rightarrow> 'b ndarray" where
  "nd_map f a = \<lparr>shape = shape a, data = map f (data a)\<rparr>"

definition nd_full :: "nat list \<Rightarrow> 'a \<Rightarrow> 'a ndarray" where
  "nd_full s v = \<lparr>shape = s, data = replicate (prod_list s) v\<rparr>"

definition scalar :: "'a \<Rightarrow> 'a ndarray" where
  "scalar v = \<lparr>shape = [], data = [v]\<rparr>"

text \<open>
  A reduction along one non-negative axis, as \<open>np.sum(a, axis=k, keepdims=keep)\<close>: the
  elements along the axis are combined from the first to the last.
\<close>

definition reduce_axis ::
  "('a \<Rightarrow> 'a \<Rightarrow> 'a) \<Rightarrow> 'a \<Rightarrow> nat \<Rightarrow> bool \<Rightarrow> 'a ndarray \<Rightarrow> error + 'a ndarray" where
  "reduce_axis f z k keep a =
     (if k \<ge> length (shape a) then Inl ValueError
      else
        let s = shape a; s1 = s[k := 1]
        in Inr \<lparr>shape = (if keep then s1 else take k s @ drop (Suc k) s),
                data = map (\<lambda>p. foldl f z (map (\<lambda>i. data a ! ravel s ((unravel s1 p)[k := i]))
                                                 [0..<s ! k]))
                           [0..<prod_list s1]\<rparr>)"

definition sum_axis :: "nat \<Rightarrow> bool \<Rightarrow> real ndarray \<Rightarrow> error + real ndarray" where
  "sum_axis k keep a = reduce_axis (+) 0 k keep a"

text \<open>\<open>np.max(a, axis=k, keepdims=True)\<close>; an empty axis has no maximum.\<close>

definition max_axis_keep :: "nat \<Rightarrow> real ndarray \<Rightarrow> error + real ndarray" where
  "max_axis_keep k a =
     (if k \<ge> length (shape a) \<or> shape a ! k = 0 then Inl ValueError
      else
        let s = shape a; s1 = s[k := 1]
        in Inr \<lparr>shape = s1,
                data = map (\<lambda>p. foldl max (data a ! ravel s ((unravel s1 p)[k := 0]))
                                     (map (\<lambda>i. data a ! ravel s ((unravel s1 p)[k := i]))
                                          [1..<s ! k]))
                           [0..<prod_list s1]\<rparr>)"

text \<open>\<open>np.sum\<close> and \<open>np.mean\<close> over the axes (0, 2, 3) with \<open>keepdims=True\<close>.\<close>

definition sum_axes023 :: "real ndarray \<Rightarrow> error + real ndarray" where
  "sum_axes023 a =
     (if length (shape a) < 4 then Inl ValueError
      else bindE (sum_axis 3 True a) (\<lambda>a3.
           bindE (sum_axis 2 True a3) (\<lambda>a2. sum_axis 0 True a2)))"

definition count_axes023 :: "real ndarray \<Rightarrow> nat" where
  "count_axes023 a = shape a ! 0 * shape a ! 2 * shape a ! 3"

definition mean_axes023 :: "real ndarray \<Rightarrow> error + real ndarray" where
  "mean_axes023 a =
     bindE (sum_axes023 a) (\<lambda>t. Inr (nd_map (\<lambda>x. x / real (count_axes023 a)) t))"

text \<open>
  \<open>np.var\<close> is the mean of the squared deviations from the mean; the sums without
  \<open>keepdims\<close> drop the reduced axes from the shape.
\<close>

definition var_axes023 :: "real ndarray \<Rightarrow> error + real ndarray" where
  "var_axes023 a =
     bindE (mean_axes023 a) (\<lambda>m.
     bindE (nd_binop (-) a m) (\<lambda>d.
     mean_axes023 (nd_map (\<lambda>x. x * x) d)))"

definition sum_axes023_drop :: "real ndarray \<Rightarrow> error + real ndarray" where
  "sum_axes023_drop a =
     bindE (sum_axes023 a) (\<lambda>t. Inr (t\<lparr>shape := shape a ! 1 # drop 4 (shape a)\<rparr>))"

definition mean_axis0 :: "real ndarray \<Rightarrow> error + real ndarray" where
  "mean_axis0 a =
     bindE (sum_axis 0 False a) (\<lambda>t. Inr (nd_map (\<lambda>x. x / real (shape a ! 0)) t))"

definition var_axis0 :: "real ndarray \<Rightarrow> error + real ndarray" where
  "var_axis0 a =
     bindE (sum_axis 0 True a) (\<lambda>t.
     bindE (nd_binop (-) a (nd_map (\<lambda>x. x / real (shape a ! 0)) t)) (\<lambda>d.
     mean_axis0 (nd_map (\<lambda>x. x * x) d)))"

definition reshape :: "'a ndarray \<Rightarrow> nat list \<Rightarrow> error + 'a ndarray" where
  "reshape a s = (if prod_list s = length (data a) then Inr (a\<lparr>shape := s\<rparr>) else Inl ValueError)"

text \<open>\<open>a.squeeze(-1)\<close> and \<open>a[..., np.newaxis]\<close>.\<close>

definition squeeze_last :: "'a ndarray \<Rightarrow> error + 'a ndarray" where
  "squeeze_last a =
     (if shape a \<noteq> [] \<and> last (shape a) = 1 then Inr (a\<lparr>shape := butlast (shape a)\<rparr>)
      else Inl ValueError)"

definition newaxis_last :: "'a ndarray \<Rightarrow> 'a ndarray" where
  "newaxis_last a = a\<lparr>shape := shape a @ [1]\<rparr>"

text \<open>\<open>a.T\<close>: the axes in reverse order.\<close>

definition nd_T :: "'a ndarray \<Rightarrow> 'a ndarray" where
  "nd_T a =
     \<lparr>shape = rev (shape a),
      data = map (\<lambda>p. data a ! ravel (shape a) (rev (unravel (rev (shape a)) p)))
                 [0..<prod_list (shape a)]\<rparr>"

text \<open>\<open>a.dot(b)\<close> and \<open>a @ b\<close> on two-dimensional operands.\<close>

definition dot :: "real ndarray \<Rightarrow> real ndarray \<Rightarrow> error + real ndarray" where
  "dot a b =
     (case (shape a, shape b) of
        ([n, m], [m', p]) \<Rightarrow>
          if m = m' then
            Inr \<lparr>shape = [n, p],
                 data = concat (map (\<lambda>i. map (\<lambda>j. sum_list (map (\<lambda>k. data a ! (i * m + k) *
                                                                      data b ! (k * p + j)) [0..<m]))
                                              [0..<p]) [0..<n])\<rparr>
          else Inl ValueError
      | _ \<Rightarrow> Inl OutsideModel)"

section \<open>Parameter\<close>

record Parameter =
  pvalue :: "real ndarray"
  grad :: "real ndarray"
  is_bias :: bool

definition new_Parameter :: "real ndarray \<Rightarrow> bool \<Rightarrow> Parameter" where
  "new_Parameter input_array b =
     \<lparr>pvalue = input_array, grad = nd_full (shape input_array) 0, is_bias = b\<rparr>"

section \<open>Linear\<close>

record Linear =
  in_features :: nat
  out_features :: nat
  weight :: Parameter
  bias :: Parameter
  lin_prev_inp :: "real ndarray option"

definition Linear_forward :: "Linear \<Rightarrow> real ndarray \<Rightarrow> error + (real ndarray \<times> Linear)" where
  "Linear_forward self inp =
     bindE (dot inp (nd_T (pvalue (weight self)))) (\<lambda>y.
     bindE (nd_binop (+) y (pvalue (bias self))) (\<lambda>out.
     Inr (out, self\<lparr>lin_prev_inp := Some inp\<rparr>)))"

definition Linear_backward :: "Linear \<Rightarrow> real ndarray \<Rightarrow> error + (real ndarray \<times> Linear)" where
  "Linear_backward self g =
     bindE (dot g (pvalue (weight self))) (\<lambda>grad_input.
     case lin_prev_inp self of
       None \<Rightarrow> Inl TypeError
     | Some prev_inp \<Rightarrow>
         bindE (dot (nd_T g) prev_inp) (\<lambda>grad_weight.
         bindE (sum_axis 0 False g) (\<lambda>grad_bias.
         bindE (nd_inplace (+) (grad (weight self)) grad_weight) (\<lambda>wg.
         bindE (nd_inplace (+) (grad (bias self)) grad_bias) (\<lambda>bg.
         Inr (grad_input,
              self\<lparr>weight := (weight self)\<lparr>grad := wg\<rparr>,
                   bias := (bias self)\<lparr>grad := bg\<rparr>\<rparr>))))))"

section \<open>Activations\<close>

record SoftmaxLayer =
  last_output :: "real ndarray option"

definition SoftmaxLayer_forward ::
  "SoftmaxLayer \<Rightarrow> real ndarray \<Rightarrow> error + (real ndarray \<times> SoftmaxLayer)" where
  "SoftmaxLayer_forward self inp =
     (let exps = nd_map exp inp
      in bindE (sum_axis 1 True exps) (\<lambda>t.
         bindE (nd_binop (/) exps t) (\<lambda>out.
         Inr (out, self\<lparr>last_output := Some out\<rparr>))))"

text \<open>
  Overflow. In binary64 a result of magnitude \<open>2 ^ 1024\<close> or more is \<open>inf\<close>, and
  \<open>inf / inf\<close> is \<open>nan\<close>. The type \<open>f64\<close> adds these two values to the reals (rounding
  is not modelled, and only the non-negative values that \<open>exp\<close> produces are needed).
  \<open>SoftmaxLayer_forward_f64\<close> is \<open>SoftmaxLayer.forward\<close> with this arithmetic, and
  \<open>softmax_f64\<close> is \<open>softmax\<close> of \<^verbatim>\<open>functional.py\<close>, which subtracts the maximum along
  the axis before exponentiating.
\<close>

datatype f64 = Fin real | PosInf | NaN

definition f64_huge :: real where
  "f64_huge = 2 ^ 1024"

definition f64_exp :: "real \<Rightarrow> f64" where
  "f64_exp x = (if f64_huge \<le> exp x then PosInf else Fin (exp x))"

fun f64_add :: "f64 \<Rightarrow> f64 \<Rightarrow> f64" where
  "f64_add NaN _ = NaN"
| "f64_add _ NaN = NaN"
| "f64_add PosInf _ = PosInf"
| "f64_add _ PosInf = PosInf"
| "f64_add (Fin a) (Fin b) = (if f64_huge \<le> a + b then PosInf else Fin (a + b))"

fun f64_div :: "f64 \<Rightarrow> f64 \<Rightarrow> f64" where
  "f64_div NaN _ = NaN"
| "f64_div _ NaN = NaN"
| "f64_div PosInf PosInf = NaN"
| "f64_div PosInf (Fin b) = PosInf"
| "f64_div (Fin a) PosInf = Fin 0"
| "f64_div (Fin a) (Fin b) =
     (if b = 0 then (if a = 0 then NaN else PosInf)
      else if f64_huge \<le> a / b then PosInf else Fin (a / b))"

definition SoftmaxLayer_forward_f64 :: "real ndarray \<Rightarrow> error + f64 ndarray" where
  "SoftmaxLayer_forward_f64 inp =
     (let exps = nd_map f64_exp inp
      in bindE (reduce_axis f64_add (Fin 0) 1 True exps) (\<lambda>t. nd_binop f64_div exps t))"

definition softmax_f64 :: "real ndarray \<Rightarrow> nat \<Rightarrow> error + f64 ndarray" where
  "softmax_f64 x axis =
     bindE (max_axis_keep axis x) (\<lambda>m.
     bindE (nd_binop (-) x m) (\<lambda>d.
     let e_x = nd_map f64_exp d
     in bindE (reduce_axis f64_add (Fin 0) axis True e_x) (\<lambda>t. nd_binop f64_div e_x t)))"

record ReLU =
  relu_prev_inp :: "real ndarray option"

definition ReLU_forward :: "ReLU \<Rightarrow> real ndarray \<Rightarrow> error + (real ndarray \<times> ReLU)" where
  "ReLU_forward self inp = Inr (nd_map (\<lambda>x. max x 0) inp, self\<lparr>relu_prev_inp := Some inp\<rparr>)"

record Sigmoid =
  sig_prev_inp :: "real ndarray option"

definition Sigmoid_forward :: "Sigmoid \<Rightarrow> real ndarray \<Rightarrow> error + (real ndarray \<times> Sigmoid)" where
  "Sigmoid_forward self inp =
     Inr (nd_map (\<lambda>x. 1 / (1 + exp (- x))) inp, self\<lparr>sig_prev_inp := Some inp\<rparr>)"

record LeakyReLULayer =
  lrelu_prev_inp :: "real ndarray option"
  leak :: real

definition LeakyReLULayer_forward ::
  "LeakyReLULayer \<Rightarrow> real ndarray \<Rightarrow> error + (real ndarray \<times> LeakyReLULayer)" where
  "LeakyReLULayer_forward self inp =
     bindE (nd_binop max (nd_map (\<lambda>x. leak self * x) inp) inp) (\<lambda>out.
     Inr (out, self\<lparr>lrelu_prev_inp := Some inp\<rparr>))"

text \<open>
  \<open>backward\<close> rewrites the cached input in place, in two steps:
  \<^verbatim>\<open>self.prev_inp[self.prev_inp < 0] = self.leak\<close> and then
  \<^verbatim>\<open>self.prev_inp[self.prev_inp >= 0] = 1\<close>. The second test reads the array the first
  assignment has already changed.
\<close>

definition LeakyReLULayer_backward ::
  "LeakyReLULayer \<Rightarrow> real ndarray \<Rightarrow> error + (real ndarray \<times> LeakyReLULayer)" where
  "LeakyReLULayer_backward self g =
     (case lrelu_prev_inp self of
        None \<Rightarrow> Inl TypeError
      | Some prev_inp \<Rightarrow>
          let p1 = nd_map (\<lambda>x. if x < 0 then leak self else x) prev_inp;
              p2 = nd_map (\<lambda>x. if x \<ge> 0 then 1 else x) p1
          in bindE (nd_binop (*) g p2) (\<lambda>r. Inr (r, self\<lparr>lrelu_prev_inp := Some p2\<rparr>)))"

section \<open>Dropout\<close>

text \<open>
  The array returned by \<^verbatim>\<open>np.random.binomial(n=1, p=1 - rate, size=inp.shape)\<close> is an
  argument of the model (\<open>sampled\<close>): an integer array of the input's shape whose entries
  are 0 or 1. A probability outside [0, 1] makes the sampler raise ValueError.
\<close>

record DropoutLayer =
  dropout_rate :: real
  dl_filter :: "nat ndarray option"
  dl_if_train :: bool

definition is_sample :: "'a ndarray \<Rightarrow> nat ndarray \<Rightarrow> bool" where
  "is_sample inp sampled \<longleftrightarrow>
     shape sampled = shape inp \<and> nd_wf sampled \<and> list_all (\<lambda>m. m = 0 \<or> m = 1) (data sampled)"

definition DropoutLayer_forward ::
  "DropoutLayer \<Rightarrow> nat ndarray \<Rightarrow> real ndarray \<Rightarrow> bool \<Rightarrow> error + (real ndarray \<times> DropoutLayer)" where
  "DropoutLayer_forward self sampled inp train =
     (if train then
        if 0 \<le> 1 - dropout_rate self \<and> 1 - dropout_rate self \<le> 1 then
          bindE (nd_binop (\<lambda>x m. x * real m) inp sampled) (\<lambda>out.
          Inr (out, self\<lparr>dl_if_train := train, dl_filter := Some sampled\<rparr>))
        else Inl ValueError
      else Inr (inp, self\<lparr>dl_if_train := train\<rparr>))"

definition DropoutLayer_backward :: "DropoutLayer \<Rightarrow> real ndarray \<Rightarrow> error + real ndarray" where
  "DropoutLayer_backward self g =
     (if dl_if_train self then
        (case dl_filter self of
           None \<Rightarrow> Inl TypeError
         | Some f \<Rightarrow> nd_binop (\<lambda>x m. x * real m) g f)
      else Inr g)"

section \<open>Batch normalisation\<close>

text \<open>
  \<open>BatchNormLayer\<close> starts with the Python number 0 as running mean and variance: an
  array of shape \<open>[]\<close> here. Fields that \<open>__init__\<close> sets to \<open>None\<close>, or does not set
  at all, are \<open>None\<close> until a forward pass fills them.
\<close>

record BatchNormLayer =
  bn_eps :: real
  bn_momentum :: real
  n_features :: nat
  bn_if_train :: bool
  bn_gamma :: Parameter
  bn_beta :: Parameter
  bn_running_mean :: "real ndarray"
  bn_running_var :: "real ndarray"
  bn_out :: "real ndarray option"
  bn_prev_inp :: "real ndarray option"
  bn_sample_mean :: "real ndarray option"
  bn_sample_var :: "real ndarray option"

definition new_BatchNormLayer :: "nat \<Rightarrow> real \<Rightarrow> real \<Rightarrow> BatchNormLayer" where
  "new_BatchNormLayer n eps momentum =
     \<lparr>bn_eps = eps, bn_momentum = momentum, n_features = n, bn_if_train = False,
      bn_gamma = new_Parameter (nd_full [n] 0) False,
      bn_beta = new_Parameter (nd_full [n] 0) False,
      bn_running_mean = scalar 0, bn_running_var = scalar 0,
      bn_out = None, bn_prev_inp = None, bn_sample_mean = None, bn_sample_var = None\<rparr>"

definition blend :: "real \<Rightarrow> real ndarray \<Rightarrow> real ndarray \<Rightarrow> error + real ndarray" where
  "blend momentum running stat =
     nd_binop (+) (nd_map (\<lambda>x. momentum * x) running) (nd_map (\<lambda>x. (1 - momentum) * x) stat)"

definition BatchNormLayer_forward ::
  "BatchNormLayer \<Rightarrow> real ndarray \<Rightarrow> bool \<Rightarrow> error + (real ndarray \<times> BatchNormLayer)" where
  "BatchNormLayer_forward self inp0 train =
     bindE (squeeze_last inp0) (\<lambda>inp.
     if train then
       bindE (mean_axis0 inp) (\<lambda>sample_mean.
       bindE (var_axis0 inp) (\<lambda>sample_var.
       bindE (nd_binop (-) inp sample_mean) (\<lambda>centred.
       bindE (nd_binop (/) centred (nd_map (\<lambda>v. sqrt (v + bn_eps self)) sample_var)) (\<lambda>out'.
       bindE (blend (bn_momentum self) (bn_running_mean self) sample_mean) (\<lambda>rm.
       bindE (blend (bn_momentum self) (bn_running_var self) sample_var) (\<lambda>rv.
       bindE (nd_binop (*) (pvalue (bn_gamma self)) out') (\<lambda>scaled.
       bindE (nd_binop (+) scaled (pvalue (bn_beta self))) (\<lambda>out.
       Inr (newaxis_last out,
            self\<lparr>bn_prev_inp := Some inp, bn_sample_mean := Some sample_mean,
                 bn_sample_var := Some sample_var, bn_out := Some out',
                 bn_running_mean := rm, bn_running_var := rv\<rparr>)))))))))
     else
       bindE (nd_binop (/) (pvalue (bn_gamma self))
                (nd_map (\<lambda>v. sqrt (v + bn_eps self)) (bn_running_var self))) (\<lambda>scale.
       bindE (nd_binop (*) inp scale) (\<lambda>a.
       bindE (nd_binop (*) (bn_running_mean self) scale) (\<lambda>b.
       bindE (nd_binop (-) (pvalue (bn_beta self)) b) (\<lambda>c.
       bindE (nd_binop (+) a c) (\<lambda>out.
       Inr (newaxis_last out, self\<lparr>bn_prev_inp := Some inp\<rparr>)))))))"

text \<open>
  The last two assignments of \<open>backward\<close> are
  \<^verbatim>\<open>self.gamma.grad = np.sum(grad * self.out_, axis=0)\<close> and
  \<^verbatim>\<open>self.beta.grad = np.sum(grad, axis=0)\<close>.
\<close>

definition BatchNormLayer_backward ::
  "BatchNormLayer \<Rightarrow> real ndarray \<Rightarrow> error + (real ndarray \<times> BatchNormLayer)" where
  "BatchNormLayer_backward self g0 =
     bindE (squeeze_last g0) (\<lambda>g.
     case bn_prev_inp self of
       None \<Rightarrow> Inl AttributeError
     | Some prev_inp \<Rightarrow>
         if shape prev_inp = [] then Inl IndexError
         else
           let N = real (shape prev_inp ! 0) in
           bindE (nd_binop (*) (pvalue (bn_gamma self)) g) (\<lambda>dout.
           case (bn_sample_mean self, bn_sample_var self, bn_out self) of
             (Some sample_mean, Some sample_var, Some out') \<Rightarrow>
               bindE (nd_binop (-) prev_inp sample_mean) (\<lambda>centred.
               bindE (nd_binop (*) dout centred) (\<lambda>t1.
               bindE (nd_binop (*) (nd_map (\<lambda>v. v * (- 1 / 2)) t1)
                        (nd_map (\<lambda>v. (v + bn_eps self) powr (- 3 / 2)) sample_var)) (\<lambda>t2.
               bindE (sum_axis 0 False t2) (\<lambda>dvar.
               let dx' = nd_map (\<lambda>v. 1 / sqrt (v + bn_eps self)) sample_var;
                   dvar' = nd_map (\<lambda>v. 2 * v / N) centred
               in
               bindE (nd_binop (*) dout dx') (\<lambda>a.
               bindE (nd_binop (*) dvar dvar') (\<lambda>b.
               bindE (nd_binop (+) a b) (\<lambda>di.
               bindE (sum_axis 0 False di) (\<lambda>sdi.
               let dmean = nd_map (\<lambda>v. - 1 * v) sdi;
                   dmean' = nd_map (\<lambda>v. 1 / N) prev_inp
               in
               bindE (nd_binop (*) dmean dmean') (\<lambda>c.
               bindE (nd_binop (+) di c) (\<lambda>dx.
               bindE (nd_binop (*) g out') (\<lambda>go.
               bindE (sum_axis 0 False go) (\<lambda>grad_gamma.
               bindE (sum_axis 0 False g) (\<lambda>grad_beta.
               Inr (newaxis_last dx,
                    self\<lparr>bn_gamma := (bn_gamma self)\<lparr>grad := grad_gamma\<rparr>,
                         bn_beta := (bn_beta self)\<lparr>grad := grad_beta\<rparr>\<rparr>))))))))))))))
           | _ \<Rightarrow> Inl TypeError))"

record BatchNorm2d =
  b2_eps :: real
  b2_momentum :: real
  num_features :: nat
  b2_gamma :: Parameter
  b2_beta :: Parameter
  b2_running_mean :: "real ndarray"
  b2_running_var :: "real ndarray"
  b2_sample_mean :: "real ndarray option"
  b2_sample_var :: "real ndarray option"
  b2_out :: "real ndarray option"

definition new_BatchNorm2d :: "nat \<Rightarrow> real \<Rightarrow> real \<Rightarrow> BatchNorm2d" where
  "new_BatchNorm2d n eps momentum =
     \<lparr>b2_eps = eps, b2_momentum = momentum, num_features = n,
      b2_gamma = new_Parameter (nd_full [n] 1) False,
      b2_beta = new_Parameter (nd_full [n] 0) False,
      b2_running_mean = nd_full [n] 0, b2_running_var = nd_full [n] 1,
      b2_sample_mean = None, b2_sample_var = None, b2_out = None\<rparr>"

text \<open>The signature is \<^verbatim>\<open>forward(self, inp, train=True)\<close>.\<close>

definition BatchNorm2d_forward ::
  "BatchNorm2d \<Rightarrow> real ndarray \<Rightarrow> bool \<Rightarrow> error + (real ndarray \<times> BatchNorm2d)" where
  "BatchNorm2d_forward self inp train =
     bindE
       (if train then
          bindE (mean_axes023 inp) (\<lambda>sample_mean.
          bindE (var_axes023 inp) (\<lambda>sample_var.
          bindE (blend (b2_momentum self) (b2_running_mean self) sample_mean) (\<lambda>rm.
          bindE (blend (b2_momentum self) (b2_running_var self) sample_var) (\<lambda>rv.
          Inr (self\<lparr>b2_sample_mean := Some sample_mean, b2_sample_var := Some sample_var,
                    b2_running_mean := rm, b2_running_var := rv\<rparr>, sample_mean, sample_var)))))
        else
          Inr (self\<lparr>b2_sample_mean := Some (b2_running_mean self),
                    b2_sample_var := Some (b2_running_var self)\<rparr>,
               b2_running_mean self, b2_running_var self))
       (\<lambda>(self1, sample_mean, sample_var).
     bindE (nd_binop (-) inp sample_mean) (\<lambda>centred.
     bindE (nd_binop (/) centred (nd_map (\<lambda>v. sqrt (v + b2_eps self)) sample_var)) (\<lambda>out'.
     bindE (reshape (pvalue (b2_gamma self)) [1, num_features self, 1, 1]) (\<lambda>gamma_reshaped.
     bindE (reshape (pvalue (b2_beta self)) [1, num_features self, 1, 1]) (\<lambda>beta_reshaped.
     bindE (nd_binop (*) gamma_reshaped out') (\<lambda>scaled.
     bindE (nd_binop (+) scaled beta_reshaped) (\<lambda>out.
     Inr (out, self1\<lparr>b2_out := Some out'\<rparr>))))))))"

text \<open>
  The last two assignments of \<open>backward\<close> are \<^verbatim>\<open>self.gamma.grad = grad_gamma\<close> and
  \<^verbatim>\<open>self.beta.grad = grad_beta\<close>.
\<close>

definition BatchNorm2d_backward ::
  "BatchNorm2d \<Rightarrow> real ndarray \<Rightarrow> error + (real ndarray \<times> BatchNorm2d)" where
  "BatchNorm2d_backward self g =
     (if length (shape g) \<noteq> 4 then Inl ValueError
      else
        case (b2_out self, b2_sample_var self) of
          (Some out', Some sample_var) \<Rightarrow>
            let C = shape g ! 1; sd = nd_map (\<lambda>v. sqrt (v + b2_eps self)) sample_var in
            bindE (nd_binop (*) g out') (\<lambda>go.
            bindE (sum_axes023_drop go) (\<lambda>grad_gamma.
            bindE (sum_axes023_drop g) (\<lambda>grad_beta.
            bindE (reshape (pvalue (b2_gamma self)) [1, C, 1, 1]) (\<lambda>gamma_reshaped.
            bindE (nd_binop (*) g gamma_reshaped) (\<lambda>gg.
            bindE (nd_binop (/) gg sd) (\<lambda>grad_out.
            bindE (mean_axes023 grad_out) (\<lambda>mean_grad_out.
            bindE (nd_binop (*) grad_out out') (\<lambda>goo.
            bindE (mean_axes023 goo) (\<lambda>mean_grad_out_inp.
            bindE (nd_binop (-) grad_out mean_grad_out) (\<lambda>d1.
            bindE (nd_binop (*) out' mean_grad_out_inp) (\<lambda>d2.
            bindE (nd_binop (-) d1 d2) (\<lambda>dx.
            bindE (nd_inplace (/) dx sd) (\<lambda>dx1.
            Inr (dx1,
                 self\<lparr>b2_gamma := (b2_gamma self)\<lparr>grad := grad_gamma\<rparr>,
                      b2_beta := (b2_beta self)\<lparr>grad := grad_beta\<rparr>\<rparr>))))))))))))))
        | _ \<Rightarrow> Inl AttributeError)"

section \<open>Sequential\<close>

text \<open>
  The layers a \<open>Sequential\<close> holds are objects of the classes modelled above. A layer is
  called as \<^verbatim>\<open>layer(inp, train=flag)\<close> or as \<^verbatim>\<open>layer(inp)\<close>; \<open>Module.__call__\<close> hands the
  arguments to \<open>forward\<close>. The keyword is absent in the second form (\<open>None\<close> below):
  a \<open>forward\<close> that declares \<^verbatim>\<open>train=True\<close> then runs with that default, and a
  \<open>forward\<close> without the parameter rejects the keyword with TypeError. The dropout layer
  at position \<open>idx\<close> of the list draws its mask as \<open>draw idx (shape inp)\<close>.
\<close>

datatype layer =
    L_Linear Linear
  | L_SoftmaxLayer SoftmaxLayer
  | L_ReLU ReLU
  | L_Sigmoid Sigmoid
  | L_LeakyReLULayer LeakyReLULayer
  | L_DropoutLayer DropoutLayer
  | L_BatchNormLayer BatchNormLayer
  | L_BatchNorm2d BatchNorm2d

definition with_layer ::
  "('s \<Rightarrow> layer) \<Rightarrow> error + (real ndarray \<times> 's) \<Rightarrow> error + (real ndarray \<times> layer)" where
  "with_layer C r = bindE r (\<lambda>(out, s). Inr (out, C s))"

definition train_default :: "bool option \<Rightarrow> bool" where
  "train_default kw = (case kw of None \<Rightarrow> True | Some t \<Rightarrow> t)"

fun call_layer ::
  "(nat \<Rightarrow> nat list \<Rightarrow> nat ndarray) \<Rightarrow> nat \<Rightarrow> layer \<Rightarrow> bool option \<Rightarrow> real ndarray
     \<Rightarrow> error + (real ndarray \<times> layer)" where
  "call_layer draw idx (L_DropoutLayer l) kw inp =
     with_layer L_DropoutLayer
       (DropoutLayer_forward l (draw idx (shape inp)) inp (train_default kw))"
| "call_layer draw idx (L_BatchNormLayer l) kw inp =
     with_layer L_BatchNormLayer (BatchNormLayer_forward l inp (train_default kw))"
| "call_layer draw idx (L_BatchNorm2d l) kw inp =
     with_layer L_BatchNorm2d (BatchNorm2d_forward l inp (train_default kw))"
| "call_layer draw idx (L_Linear l) kw inp =
     (if kw = None then with_layer L_Linear (Linear_forward l inp) else Inl TypeError)"
| "call_layer draw idx (L_SoftmaxLayer l) kw inp =
     (if kw = None then with_layer L_SoftmaxLayer (SoftmaxLayer_forward l inp) else Inl TypeError)"
| "call_layer draw idx (L_ReLU l) kw inp =
     (if kw = None then with_layer L_ReLU (ReLU_forward l inp) else Inl TypeError)"
| "call_layer draw idx (L_Sigmoid l) kw inp =
     (if kw = None then with_layer L_Sigmoid (Sigmoid_forward l inp) else Inl TypeError)"
| "call_layer draw idx (L_LeakyReLULayer l) kw inp =
     (if kw = None then with_layer L_LeakyReLULayer (LeakyReLULayer_forward l inp)
      else Inl TypeError)"

record Sequential =
  layers :: "layer list"
  seq_if_train :: bool

definition Sequential_train :: "Sequential \<Rightarrow> Sequential" where
  "Sequential_train self = self\<lparr>seq_if_train := True\<rparr>"

definition Sequential_eval :: "Sequential \<Rightarrow> Sequential" where
  "Sequential_eval self = self\<lparr>seq_if_train := False\<rparr>"

text \<open>
  The test in the loop of \<open>Sequential.forward\<close> is
  \<^verbatim>\<open>isinstance(layer, DropoutLayer) or isinstance(layer, BatchNormLayer)\<close>.
\<close>

fun passes_train_flag :: "layer \<Rightarrow> bool" where
  "passes_train_flag (L_DropoutLayer _) = True"
| "passes_train_flag (L_BatchNormLayer _) = True"
| "passes_train_flag _ = False"

fun forward_layers ::
  "(nat \<Rightarrow> nat list \<Rightarrow> nat ndarray) \<Rightarrow> bool \<Rightarrow> nat \<Rightarrow> layer list \<Rightarrow> real ndarray
     \<Rightarrow> error + (real ndarray \<times> layer list)" where
  "forward_layers draw if_train idx [] inp = Inr (inp, [])"
| "forward_layers draw if_train idx (layer # rest) inp =
     bindE (if passes_train_flag layer then call_layer draw idx layer (Some if_train) inp
            else call_layer draw idx layer None inp) (\<lambda>(out, layer').
     bindE (forward_layers draw if_train (Suc idx) rest out) (\<lambda>(res, rest').
     Inr (res, layer' # rest')))"

definition Sequential_forward ::
  "(nat \<Rightarrow> nat list \<Rightarrow> nat ndarray) \<Rightarrow> Sequential \<Rightarrow> real ndarray
     \<Rightarrow> error + (real ndarray \<times> Sequential)" where
  "Sequential_forward draw self inp =
     bindE (forward_layers draw (seq_if_train self) 0 (layers self) inp) (\<lambda>(out, ls).
     Inr (out, self\<lparr>layers := ls\<rparr>))"

section \<open>Python objects as the serialisation code sees them\<close>

text \<open>
  \<open>state_dict\<close> and \<open>load_state_dict\<close> reach an object only through \<open>dir\<close>, \<open>getattr\<close>,
  \<open>setattr\<close> and \<open>isinstance\<close>. An object is therefore its class together with its
  attribute bindings, in the order in which \<open>dir\<close> lists them. \<open>Module_obj\<close> is an
  instance of a \<open>Module\<close> subclass that inherits both methods; \<open>BatchNorm2d\<close> overrides
  \<open>load_state_dict\<close> and \<open>Sequential\<close> overrides both. The first argument of
  \<open>Sequential_obj\<close> is the value of \<open>self.layers\<close>, that of \<open>ModuleList_obj\<close> the value of
  \<open>self.modules\<close>; \<open>Opaque\<close> stands for any value without settable attributes (None,
  numbers, booleans, bound methods). \<open>setattr\<close> on a new name appends the binding. The
  model returns the updated object where Python mutates it in place.
\<close>

datatype pyobj =
    Arr "real ndarray"
  | Parameter_obj "(string \<times> pyobj) list"
  | Module_obj "(string \<times> pyobj) list"
  | BatchNorm2d_obj "(string \<times> pyobj) list"
  | Sequential_obj pyobj "(string \<times> pyobj) list"
  | ModuleList_obj pyobj "(string \<times> pyobj) list"
  | PyList "pyobj list"
  | Opaque

fun is_Module :: "pyobj \<Rightarrow> bool" where
  "is_Module (Module_obj _) = True"
| "is_Module (BatchNorm2d_obj _) = True"
| "is_Module (Sequential_obj _ _) = True"
| "is_Module _ = False"

fun getattr :: "pyobj \<Rightarrow> string \<Rightarrow> error + pyobj" where
  "getattr (Parameter_obj attrs) name =
     (case map_of attrs name of Some v \<Rightarrow> Inr v | None \<Rightarrow> Inl AttributeError)"
| "getattr (Module_obj attrs) name =
     (case map_of attrs name of Some v \<Rightarrow> Inr v | None \<Rightarrow> Inl AttributeError)"
| "getattr (BatchNorm2d_obj attrs) name =
     (case map_of attrs name of Some v \<Rightarrow> Inr v | None \<Rightarrow> Inl AttributeError)"
| "getattr (Sequential_obj ls attrs) name =
     (if name = ''layers'' then Inr ls
      else case map_of attrs name of Some v \<Rightarrow> Inr v | None \<Rightarrow> Inl AttributeError)"
| "getattr (ModuleList_obj ms attrs) name =
     (if name = ''modules'' then Inr ms
      else case map_of attrs name of Some v \<Rightarrow> Inr v | None \<Rightarrow> Inl AttributeError)"
| "getattr _ name = Inl AttributeError"

fun setattr :: "pyobj \<Rightarrow> string \<Rightarrow> pyobj \<Rightarrow> error + pyobj" where
  "setattr (Parameter_obj attrs) name v = Inr (Parameter_obj (AList.update name v attrs))"
| "setattr (Module_obj attrs) name v = Inr (Module_obj (AList.update name v attrs))"
| "setattr (BatchNorm2d_obj attrs) name v = Inr (BatchNorm2d_obj (AList.update name v attrs))"
| "setattr (Sequential_obj ls attrs) name v =
     (if name = ''layers'' then Inr (Sequential_obj v attrs)
      else Inr (Sequential_obj ls (AList.update name v attrs)))"
| "setattr (ModuleList_obj ms attrs) name v =
     (if name = ''modules'' then Inr (ModuleList_obj v attrs)
      else Inr (ModuleList_obj ms (AList.update name v attrs)))"
| "setattr _ name v = Inl AttributeError"

subsection \<open>Strings\<close>

fun split_on :: "char \<Rightarrow> string \<Rightarrow> string list" where
  "split_on c [] = [[]]"
| "split_on c (x # xs) =
     (if x = c then [] # split_on c xs
      else case split_on c xs of p # ps \<Rightarrow> (x # p) # ps | [] \<Rightarrow> [[x]])"

fun join_dot :: "string list \<Rightarrow> string" where
  "join_dot [] = []"
| "join_dot [p] = p"
| "join_dot (p # q # ps) = p @ ''.'' @ join_dot (q # ps)"

fun str_nat :: "nat \<Rightarrow> string" where
  "str_nat n = (if n < 10 then [''0123456789'' ! n]
                else str_nat (n div 10) @ [''0123456789'' ! (n mod 10)])"

text \<open>
  \<open>int(s)\<close> on a string. A character is a code point below 256. Whitespace around the
  number is stripped: the ASCII characters space, tab, line feed, vertical tab, form feed
  and carriage return, and the two further whitespace code points below 256, U+0085 and
  U+00A0. A sign may come first, and the digits may be grouped by single underscores;
  below 256 the only decimal digits are the ASCII ones. CPython 3.11 and later refuse a
  string of more than 4300 digits with ValueError, like any other malformed literal.
\<close>

definition is_space :: "char \<Rightarrow> bool" where
  "is_space c \<longleftrightarrow>
     c \<in> set [CHR '' '', CHR 0x09, CHR 0x0A, CHR 0x0B, CHR 0x0C, CHR 0x0D, CHR 0x85, CHR 0xA0]"

definition strip :: "string \<Rightarrow> string" where
  "strip s = rev (dropWhile is_space (rev (dropWhile is_space s)))"

definition is_digit :: "char \<Rightarrow> bool" where
  "is_digit c \<longleftrightarrow> c \<in> set ''0123456789''"

definition digit_val :: "char \<Rightarrow> nat" where
  "digit_val c = of_char c - 48"

fun digits :: "nat \<Rightarrow> string \<Rightarrow> nat option" where
  "digits acc [] = None"
| "digits acc [c] = (if is_digit c then Some (acc * 10 + digit_val c) else None)"
| "digits acc (c # d # cs) =
     (if is_digit c then
        (if d = CHR ''_'' then digits (acc * 10 + digit_val c) cs
         else digits (acc * 10 + digit_val c) (d # cs))
      else None)"

definition max_str_digits :: nat where
  "max_str_digits = 4300"

definition py_int :: "string \<Rightarrow> int option" where
  "py_int s =
     (if length (filter is_digit s) > max_str_digits then None
      else
        case strip s of
          [] \<Rightarrow> None
        | c # cs \<Rightarrow>
            if c = CHR ''-'' then map_option (\<lambda>n. - int n) (digits 0 cs)
            else if c = CHR ''+'' then map_option int (digits 0 cs)
            else map_option int (digits 0 (c # cs)))"

text \<open>\<open>xs[i]\<close> on a list: a negative index counts from the end.\<close>

definition py_index :: "'a list \<Rightarrow> int \<Rightarrow> error + nat" where
  "py_index xs i =
     (let n = int (length xs); j = (if i < 0 then i + n else i)
      in if 0 \<le> j \<and> j < n then Inr (nat j) else Inl IndexError)"


subsection \<open>Export: state_dict\<close>

definition add_prefixed ::
  "string \<Rightarrow> (string \<times> pyobj) list \<Rightarrow> (string \<times> pyobj) list \<Rightarrow> (string \<times> pyobj) list" where
  "add_prefixed prefix items result = fold (\<lambda>(key, v). AList.update (prefix @ key) v) items result"

fun state_dict :: "pyobj \<Rightarrow> error + (string \<times> pyobj) list"
  and Module_state_dict_loop ::
    "(string \<times> pyobj) list \<Rightarrow> (string \<times> pyobj) list \<Rightarrow> error + (string \<times> pyobj) list"
  and ModuleList_loop ::
    "string \<Rightarrow> nat \<Rightarrow> pyobj list \<Rightarrow> (string \<times> pyobj) list \<Rightarrow> error + (string \<times> pyobj) list"
  and Sequential_state_dict_loop ::
    "nat \<Rightarrow> pyobj list \<Rightarrow> (string \<times> pyobj) list \<Rightarrow> error + (string \<times> pyobj) list" where
  "state_dict (Module_obj attrs) = Module_state_dict_loop attrs []"
| "state_dict (BatchNorm2d_obj attrs) = Module_state_dict_loop attrs []"
| "state_dict (Sequential_obj (PyList ls) attrs) = Sequential_state_dict_loop 0 ls []"
| "state_dict (Sequential_obj _ attrs) = Inl TypeError"
| "state_dict _ = Inl AttributeError"
| "Module_state_dict_loop [] result = Inr result"
| "Module_state_dict_loop ((attr_name, Module_obj a) # rest) result =
     bindE (state_dict (Module_obj a)) (\<lambda>items.
     Module_state_dict_loop rest (add_prefixed (attr_name @ ''.'') items result))"
| "Module_state_dict_loop ((attr_name, BatchNorm2d_obj a) # rest) result =
     bindE (state_dict (BatchNorm2d_obj a)) (\<lambda>items.
     Module_state_dict_loop rest (add_prefixed (attr_name @ ''.'') items result))"
| "Module_state_dict_loop ((attr_name, Sequential_obj ls a) # rest) result =
     bindE (state_dict (Sequential_obj ls a)) (\<lambda>items.
     Module_state_dict_loop rest (add_prefixed (attr_name @ ''.'') items result))"
| "Module_state_dict_loop ((attr_name, ModuleList_obj (PyList ms) a) # rest) result =
     bindE (ModuleList_loop attr_name 0 ms result) (\<lambda>result'.
     Module_state_dict_loop rest result')"
| "Module_state_dict_loop ((attr_name, ModuleList_obj _ a) # rest) result = Inl TypeError"
| "Module_state_dict_loop ((attr_name, Parameter_obj a) # rest) result =
     bindE (getattr (Parameter_obj a) ''value'') (\<lambda>v.
     bindE (getattr (Parameter_obj a) ''grad'') (\<lambda>g.
     Module_state_dict_loop rest
       (AList.update (attr_name @ ''.grad'') g (AList.update (attr_name @ ''.value'') v result))))"
| "Module_state_dict_loop ((attr_name, _) # rest) result = Module_state_dict_loop rest result"
| "ModuleList_loop attr_name i [] result = Inr result"
| "ModuleList_loop attr_name i (submodule # rest) result =
     bindE (state_dict submodule) (\<lambda>items.
     ModuleList_loop attr_name (Suc i) rest
       (add_prefixed (attr_name @ ''.'' @ str_nat i @ ''.'') items result))"
| "Sequential_state_dict_loop idx [] result = Inr result"
| "Sequential_state_dict_loop idx (layer # rest) result =
     (if is_Module layer then
        bindE (state_dict layer) (\<lambda>items.
        Sequential_state_dict_loop (Suc idx) rest
          (add_prefixed (''layers.'' @ str_nat idx @ ''.'') items result))
      else Sequential_state_dict_loop (Suc idx) rest result)"

subsection \<open>Import: load_state_dict\<close>

text \<open>The body of the loop of \<open>BatchNorm2d.load_state_dict\<close>.\<close>

definition BatchNorm2d_load_item :: "pyobj \<Rightarrow> string \<Rightarrow> pyobj \<Rightarrow> error + pyobj" where
  "BatchNorm2d_load_item self key v =
     (if key = ''gamma.value'' then
        bindE (getattr self ''gamma'') (\<lambda>p.
        bindE (setattr p ''value'' v) (\<lambda>p'. setattr self ''gamma'' p'))
      else if key = ''beta.value'' then
        bindE (getattr self ''beta'') (\<lambda>p.
        bindE (setattr p ''value'' v) (\<lambda>p'. setattr self ''beta'' p'))
      else if key = ''running_mean.value'' then setattr self ''running_mean'' v
      else if key = ''running_var.value'' then setattr self ''running_var'' v
      else Inr self)"

lemma split_on_not_Nil [simp]: "split_on c s \<noteq> []"
  by (induction s) (auto split: list.splits)

lemma join_dot_Cons_Cons: "join_dot ((x # p) # ps) = x # join_dot (p # ps)"
  by (cases ps) simp_all

lemma join_dot_split_on: "join_dot (split_on CHR ''.'' s) = s"
proof (induction s)
  case Nil
  then show ?case by simp
next
  case (Cons x xs)
  obtain p ps where sp: "split_on CHR ''.'' xs = p # ps"
    by (cases "split_on CHR ''.'' xs") simp_all
  with Cons show ?case by (simp add: join_dot_Cons_Cons)
qed

lemma length_join_dot_tl: "2 \<le> length ps \<Longrightarrow> length (join_dot (tl ps)) < length (join_dot ps)"
  by (cases ps rule: join_dot.cases) simp_all

lemma length_join_dot_drop2: "2 < length ps \<Longrightarrow> length (join_dot (drop 2 ps)) < length (join_dot ps)"
proof -
  assume a: "2 < length ps"
  then have "2 \<le> length (tl ps)" by simp
  then have "length (join_dot (tl (tl ps))) < length (join_dot (tl ps))"
    by (rule length_join_dot_tl)
  moreover have "length (join_dot (tl ps)) < length (join_dot ps)"
    using a by (intro length_join_dot_tl) simp
  moreover have "drop 2 ps = tl (tl ps)"
    by (simp add: drop_Suc numeral_2_eq_2 drop_tl)
  ultimately show ?thesis by simp
qed

lemma py_int_not_Nil: "py_int s = Some i \<Longrightarrow> s \<noteq> []"
  by (auto simp: py_int_def strip_def split: if_splits)

function (sequential) load_state_dict :: "pyobj \<Rightarrow> (string \<times> pyobj) list \<Rightarrow> error + pyobj" where
  "load_state_dict (Module_obj attrs) [] = Inr (Module_obj attrs)"
| "load_state_dict (BatchNorm2d_obj attrs) [] = Inr (BatchNorm2d_obj attrs)"
| "load_state_dict (Sequential_obj ls attrs) [] = Inr (Sequential_obj ls attrs)"
| "load_state_dict (Module_obj attrs) ((key, v) # rest) =
     (let self = Module_obj attrs; res = split_on CHR ''.'' key in
      bindE
        (if length res = 2 then
           bindE (getattr self (res ! 0)) (\<lambda>param.
           bindE (setattr param (res ! 1) v) (\<lambda>param'.
           Inr (Module_obj (AList.update (res ! 0) param' attrs))))
         else if length res > 2 then
           bindE (getattr self (res ! 0)) (\<lambda>submodule.
           if is_Module submodule then
             bindE (load_state_dict submodule [(join_dot (tl res), v)]) (\<lambda>submodule'.
             Inr (Module_obj (AList.update (res ! 0) submodule' attrs)))
           else
             case submodule of
               ModuleList_obj ms mattrs \<Rightarrow>
                 (case py_int (res ! 1) of
                    None \<Rightarrow> Inl ValueError
                  | Some ind \<Rightarrow>
                      (case ms of
                         PyList l \<Rightarrow>
                           bindE (py_index l ind) (\<lambda>j.
                           bindE (load_state_dict (l ! j) [(join_dot (drop 2 res), v)]) (\<lambda>m'.
                           Inr (Module_obj (AList.update (res ! 0)
                                  (ModuleList_obj (PyList (l[j := m'])) mattrs) attrs))))
                       | _ \<Rightarrow> Inl TypeError))
             | _ \<Rightarrow> Inr self)
         else Inr self)
        (\<lambda>self'. load_state_dict self' rest))"
| "load_state_dict (Sequential_obj ls attrs) ((name, v) # rest) =
     (let parts = split_on CHR ''.'' name in
      case py_int (parts ! 0) of
        None \<Rightarrow> Inl ValueError
      | Some i \<Rightarrow>
          (case ls of
             PyList l \<Rightarrow>
               bindE (py_index l i) (\<lambda>j.
               bindE (load_state_dict (l ! j) [(join_dot (tl parts), v)]) (\<lambda>submodule'.
               load_state_dict (Sequential_obj (PyList (l[j := submodule'])) attrs) rest))
           | _ \<Rightarrow> Inl TypeError))"
| "load_state_dict (BatchNorm2d_obj attrs) ((key, v) # rest) =
     bindE (BatchNorm2d_load_item (BatchNorm2d_obj attrs) key v) (\<lambda>self'.
     load_state_dict self' rest)"
| "load_state_dict _ _ = Inl AttributeError"
  by pat_completeness auto
termination
proof (relation "measure (\<lambda>(self, sd). sum_list (map (\<lambda>(k, v). Suc (length k)) sd))",
    goal_cases)
  case 1
  then show ?case by simp
next
  case (2 attrs key v rest self res submodule)
  then have "2 \<le> length (split_on CHR ''.'' key)" by simp
  then have "length (join_dot (tl (split_on CHR ''.'' key))) < length (join_dot (split_on CHR ''.'' key))"
    by (rule length_join_dot_tl)
  with 2 show ?case by (simp add: join_dot_split_on)
next
  case (3 attrs key v rest self res submodule ms mattrs ind l j)
  then have "2 < length (split_on CHR ''.'' key)" by simp
  then have "length (join_dot (drop 2 (split_on CHR ''.'' key))) < length (join_dot (split_on CHR ''.'' key))"
    by (rule length_join_dot_drop2)
  with 3 show ?case by (simp add: join_dot_split_on)
next
  case (4 attrs key v rest self res self')
  then show ?case by simp
next
  case (5 ls attrs name v rest parts i l j)
  show ?case
  proof (cases "2 \<le> length (split_on CHR ''.'' name)")
    case True
    then have "length (join_dot (tl (split_on CHR ''.'' name))) < length (join_dot (split_on CHR ''.'' name))"
      by (rule length_join_dot_tl)
    with 5 show ?thesis by (simp add: join_dot_split_on)
  next
    case False
    then obtain p where p: "split_on CHR ''.'' name = [p]"
      by (cases "split_on CHR ''.'' name" rule: join_dot.cases) simp_all
    then have "join_dot (split_on CHR ''.'' name) = p" by simp
    then have "name = p" by (simp add: join_dot_split_on)
    moreover have "p \<noteq> []" using 5 p py_int_not_Nil by fastforce
    ultimately show ?thesis using 5 p by simp
  qed
next
  case (6 ls attrs name v rest parts i l j submodule')
  then show ?case by simp
next
  case (7 attrs key v rest self')
  then show ?case by simp
qed

subsection \<open>Example objects\<close>

text \<open>
  The attribute bindings of a \<open>Parameter\<close>, a \<open>Linear\<close>, a \<open>BatchNorm2d\<close> and a
  \<open>Sequential\<close> instance: instance attributes and methods in the order of \<open>dir\<close>. The
  special attributes (\<open>__class__\<close>, \<open>__dict__\<close>, ...) are left out.
\<close>

definition Parameter_of :: "real ndarray \<Rightarrow> real ndarray \<Rightarrow> pyobj" where
  "Parameter_of v g = Parameter_obj [(''grad'', Arr g), (''is_bias'', Opaque), (''value'', Arr v)]"

definition Linear_attrs :: "pyobj \<Rightarrow> pyobj \<Rightarrow> (string \<times> pyobj) list" where
  "Linear_attrs w b =
     [(''backward'', Opaque), (''bias'', b), (''forward'', Opaque), (''in_features'', Opaque),
      (''load_state_dict'', Opaque), (''out_features'', Opaque), (''prev_inp'', Opaque),
      (''state_dict'', Opaque), (''to'', Opaque), (''weight'', w)]"

definition BatchNorm2d_attrs :: "pyobj \<Rightarrow> pyobj \<Rightarrow> pyobj \<Rightarrow> pyobj \<Rightarrow> (string \<times> pyobj) list" where
  "BatchNorm2d_attrs gamma beta running_mean running_var =
     [(''backward'', Opaque), (''beta'', beta), (''eps'', Opaque), (''forward'', Opaque),
      (''gamma'', gamma), (''load_state_dict'', Opaque), (''momentum'', Opaque),
      (''num_features'', Opaque), (''running_mean'', running_mean),
      (''running_var'', running_var), (''state_dict'', Opaque), (''to'', Opaque)]"

definition Sequential_attrs :: "(string \<times> pyobj) list" where
  "Sequential_attrs =
     [(''backward'', Opaque), (''eval'', Opaque), (''forward'', Opaque), (''if_train'', Opaque),
      (''load_state_dict'', Opaque), (''parameters'', Opaque), (''state_dict'', Opaque),
      (''to'', Opaque), (''train'', Opaque)]"

definition example_Linear_attrs :: "(string \<times> pyobj) list" where
  "example_Linear_attrs =
     Linear_attrs (Parameter_of \<lparr>shape = [1, 1], data = [2]\<rparr> \<lparr>shape = [1, 1], data = [0]\<rparr>)
                  (Parameter_of \<lparr>shape = [1], data = [3]\<rparr> \<lparr>shape = [1], data = [0]\<rparr>)"

definition example_Linear :: pyobj where
  "example_Linear = Module_obj example_Linear_attrs"

definition example_BatchNorm2d_attrs :: "(string \<times> pyobj) list" where
  "example_BatchNorm2d_attrs =
     BatchNorm2d_attrs (Parameter_of \<lparr>shape = [1], data = [1]\<rparr> \<lparr>shape = [1], data = [0]\<rparr>)
                       (Parameter_of \<lparr>shape = [1], data = [0]\<rparr> \<lparr>shape = [1], data = [0]\<rparr>)
                       (Arr \<lparr>shape = [1], data = [0]\<rparr>) (Arr \<lparr>shape = [1], data = [1]\<rparr>)"

definition example_BatchNorm2d :: pyobj where
  "example_BatchNorm2d = BatchNorm2d_obj example_BatchNorm2d_attrs"

definition example_Sequential :: pyobj where
  "example_Sequential = Sequential_obj (PyList [example_Linear]) Sequential_attrs"

section \<open>Layers whose backward pass is not implemented\<close>

record Conv2d =
  c2_in_channels :: nat
  c2_out_channels :: nat
  c2_kernel_size :: "nat \<times> nat"
  c2_stride :: nat
  c2_padding :: nat
  c2_weight :: Parameter
  c2_bias :: Parameter

record ConvTranspose2d =
  ct_in_channels :: nat
  ct_out_channels :: nat
  ct_kernel_size :: "nat \<times> nat"
  ct_stride :: "nat \<times> nat"
  ct_padding :: "nat \<times> nat"
  ct_output_padding :: "nat \<times> nat"
  ct_weight :: Parameter
  ct_bias :: Parameter

record MaxPool2d =
  mp_kernel_size :: nat
  mp_stride :: nat

record AdaptiveAvgPool2d =
  ap_output_size :: "nat \<times> nat"

text \<open>
  \<open>Conv2d.backward\<close> raises as its first statement; the statements after the
  \<open>raise\<close> are unreachable. The other three bodies consist of the \<open>raise\<close> alone.
\<close>

definition Conv2d_backward :: "Conv2d \<Rightarrow> real ndarray \<Rightarrow> error + (real ndarray \<times> Conv2d)" where
  "Conv2d_backward self dout = Inl NotImplementedError"

definition ConvTranspose2d_backward ::
  "ConvTranspose2d \<Rightarrow> real ndarray \<Rightarrow> error + (real ndarray \<times> ConvTranspose2d)" where
  "ConvTranspose2d_backward self dout = Inl NotImplementedError"

definition MaxPool2d_backward :: "MaxPool2d \<Rightarrow> real ndarray \<Rightarrow> error + (real ndarray \<times> MaxPool2d)" where
  "MaxPool2d_backward self g = Inl NotImplementedError"

definition AdaptiveAvgPool2d_backward ::
  "AdaptiveAvgPool2d \<Rightarrow> real ndarray \<Rightarrow> error + (real ndarray \<times> AdaptiveAvgPool2d)" where
  "AdaptiveAvgPool2d_backward self g = Inl NotImplementedError"

section \<open>The patch-transform kernel\<close>

text \<open>
  Four-dimensional arrays: the element at (n, c, h, w) of an array of shape
  (N, C, H, W) is at position ((n * C + c) * H + h) * W + w of its data.
\<close>

definition idx4 :: "nat \<Rightarrow> nat \<Rightarrow> nat \<Rightarrow> nat \<Rightarrow> nat \<Rightarrow> nat \<Rightarrow> nat \<Rightarrow> nat" where
  "idx4 C H W n c h w = ((n * C + c) * H + h) * W + w"

definition at4 :: "'a ndarray \<Rightarrow> nat \<Rightarrow> nat \<Rightarrow> nat \<Rightarrow> nat \<Rightarrow> 'a" where
  "at4 a n c h w = data a ! idx4 (shape a ! 1) (shape a ! 2) (shape a ! 3) n c h w"

definition tabulate4 :: "nat \<Rightarrow> nat \<Rightarrow> nat \<Rightarrow> nat \<Rightarrow> (nat \<Rightarrow> nat \<Rightarrow> nat \<Rightarrow> nat \<Rightarrow> 'a) \<Rightarrow> 'a ndarray" where
  "tabulate4 N C H W f =
     \<lparr>shape = [N, C, H, W],
      data = concat (map (\<lambda>n. concat (map (\<lambda>c. concat (map (\<lambda>h. map (\<lambda>w. f n c h w) [0..<W])
                                                          [0..<H])) [0..<C])) [0..<N])\<rparr>"

text \<open>\<open>np.repeat(xs, n)\<close> and \<open>np.tile(xs, n)\<close> on one-dimensional arrays.\<close>

definition np_repeat :: "'a list \<Rightarrow> nat \<Rightarrow> 'a list" where
  "np_repeat xs n = concat (map (replicate n) xs)"

definition np_tile :: "'a list \<Rightarrow> nat \<Rightarrow> 'a list" where
  "np_tile xs n = concat (replicate n xs)"

text \<open>
  \<open>get_im2col_indices\<close>. The output sizes are computed with Python's floor division on
  integers; \<open>np.arange\<close> of a number that is not positive is empty. A stride of 0 raises
  ZeroDivisionError, and a shape that is not a four-tuple cannot be unpacked. The result
  holds \<open>k\<close> as a list (a column) and \<open>i\<close>, \<open>j\<close> as lists of rows.
\<close>

record im2col_idx =
  idx_k :: "nat list"
  idx_i :: "nat list list"
  idx_j :: "nat list list"

definition out_size :: "nat \<Rightarrow> nat \<Rightarrow> nat \<Rightarrow> nat \<Rightarrow> int" where
  "out_size H pad field stride = (int H + 2 * int pad - int field) div int stride + 1"

definition get_im2col_indices ::
  "nat list \<Rightarrow> nat \<Rightarrow> nat \<Rightarrow> nat \<times> nat \<Rightarrow> nat \<times> nat \<Rightarrow> error + im2col_idx" where
  "get_im2col_indices x_shape field_height field_width padding stride =
     (case x_shape of
        [N, C, H, W] \<Rightarrow>
          (let (pad_h, pad_w) = padding; (stride_h, stride_w) = stride in
           if stride_h = 0 \<or> stride_w = 0 then Inl ZeroDivisionError
           else
             let out_height = nat (out_size H pad_h field_height stride_h);
                 out_width = nat (out_size W pad_w field_width stride_w);
                 i0 = np_tile (np_repeat [0..<field_height] field_width) C;
                 i1 = map (\<lambda>v. stride_h * v) (np_repeat [0..<out_height] out_width);
                 j0 = np_tile [0..<field_width] (field_height * C);
                 j1 = map (\<lambda>v. stride_w * v) (np_tile [0..<out_width] out_height);
                 i = map (\<lambda>a. map (\<lambda>b. a + b) i1) i0;
                 j = map (\<lambda>a. map (\<lambda>b. a + b) j1) j0;
                 k = np_repeat [0..<C] (field_height * field_width)
             in Inr \<lparr>idx_k = k, idx_i = i, idx_j = j\<rparr>)
      | _ \<Rightarrow> Inl ValueError)"

text \<open>
  \<open>im2col_indices\<close>: pad with zeros, gather \<open>x_padded[:, k, i, j]\<close> (an index outside the
  padded array raises IndexError), move the batch axis last and reshape to
  \<open>(C * field_height * field_width, -1)\<close>. The reshape cannot infer the second side when
  the first is 0.
\<close>

definition np_pad4 :: "real ndarray \<Rightarrow> nat \<Rightarrow> nat \<Rightarrow> real ndarray" where
  "np_pad4 x p_h p_w =
     (let N = shape x ! 0; C = shape x ! 1; H = shape x ! 2; W = shape x ! 3
      in tabulate4 N C (H + 2 * p_h) (W + 2 * p_w)
           (\<lambda>n c h w. if p_h \<le> h \<and> h < p_h + H \<and> p_w \<le> w \<and> w < p_w + W
                       then at4 x n c (h - p_h) (w - p_w) else 0))"

definition indices_ok :: "im2col_idx \<Rightarrow> nat \<Rightarrow> nat \<Rightarrow> nat \<Rightarrow> bool" where
  "indices_ok ix C Hp Wp \<longleftrightarrow>
     list_all (\<lambda>c. c < C) (idx_k ix) \<and>
     list_all (list_all (\<lambda>h. h < Hp)) (idx_i ix) \<and>
     list_all (list_all (\<lambda>w. w < Wp)) (idx_j ix)"

definition gather_cols :: "im2col_idx \<Rightarrow> real ndarray \<Rightarrow> nat \<Rightarrow> nat \<Rightarrow> nat \<Rightarrow> real list" where
  "gather_cols ix x_padded N R L =
     concat (map (\<lambda>r. concat (map (\<lambda>l. map (\<lambda>n.
       at4 x_padded n (idx_k ix ! r) (idx_i ix ! r ! l) (idx_j ix ! r ! l))
       [0..<N]) [0..<L])) [0..<R])"

definition im2col_indices ::
  "real ndarray \<Rightarrow> nat \<Rightarrow> nat \<Rightarrow> nat \<times> nat \<Rightarrow> nat \<times> nat \<Rightarrow> error + real ndarray" where
  "im2col_indices x field_height field_width padding stride =
     (if length (shape x) \<noteq> 4 then Inl ValueError
      else
        let (p_h, p_w) = padding;
            x_padded = np_pad4 x p_h p_w
        in bindE (get_im2col_indices (shape x) field_height field_width padding stride) (\<lambda>ix.
           let N = shape x ! 0; C = shape x ! 1;
               R = length (idx_k ix);
               L = (case idx_i ix of [] \<Rightarrow> 0 | row # _ \<Rightarrow> length row)
           in if \<not> indices_ok ix C (shape x_padded ! 2) (shape x_padded ! 3) then Inl IndexError
              else if field_height * field_width * C = 0 then Inl ValueError
              else
                Inr \<lparr>shape = [field_height * field_width * C, L * N],
                     data = gather_cols ix x_padded N R L\<rparr>))"

text \<open>
  \<open>col2im_indices\<close>: \<open>cols.reshape(C * field_height * field_width, -1, N)\<close> needs the
  size of \<open>cols\<close> to be a multiple of the product of the two given sides, which must not
  be 0. \<open>np.add.at\<close> adds every value to the element its index names, one after the
  other, so that an element named several times receives every contribution; the values
  have shape (N, R, M) and are broadcast against the index shape (N, R, L), which needs
  M = L or M = 1. The final slice \<open>pad:-pad\<close> is empty along an axis whose padding is 0.
\<close>

definition scatter_add :: "real list \<Rightarrow> (nat \<times> real) list \<Rightarrow> real list" where
  "scatter_add buf updates = fold (\<lambda>(p, v) b. b[p := b ! p + v]) updates buf"

definition add_at_updates ::
  "im2col_idx \<Rightarrow> real ndarray \<Rightarrow> nat \<Rightarrow> nat \<Rightarrow> nat \<Rightarrow> nat \<Rightarrow> nat \<Rightarrow> nat \<Rightarrow> nat
     \<Rightarrow> (nat \<times> real) list" where
  "add_at_updates ix cols N C H_padded W_padded R L M =
     concat (map (\<lambda>n. concat (map (\<lambda>r. map (\<lambda>l.
       (idx4 C H_padded W_padded n (idx_k ix ! r) (idx_i ix ! r ! l) (idx_j ix ! r ! l),
        data cols ! ((r * M + (if M = L then l else 0)) * N + n)))
       [0..<L]) [0..<R])) [0..<N])"

definition col2im_indices ::
  "real ndarray \<Rightarrow> nat list \<Rightarrow> nat \<Rightarrow> nat \<Rightarrow> nat \<times> nat \<Rightarrow> nat \<times> nat \<Rightarrow> error + real ndarray" where
  "col2im_indices cols x_shape field_height field_width padding stride =
     (case x_shape of
        [N, C, H, W] \<Rightarrow>
          (let (pad_h, pad_w) = padding;
               H_padded = H + 2 * pad_h; W_padded = W + 2 * pad_w
           in bindE (get_im2col_indices x_shape field_height field_width padding stride) (\<lambda>ix.
              let R = C * field_height * field_width;
                  L = (case idx_i ix of [] \<Rightarrow> 0 | row # _ \<Rightarrow> length row);
                  sz = length (data cols)
              in if R * N = 0 \<or> sz mod (R * N) \<noteq> 0 then Inl ValueError
                 else
                   let M = sz div (R * N) in
                   if \<not> indices_ok ix C H_padded W_padded then Inl IndexError
                   else if M \<noteq> L \<and> M \<noteq> 1 then Inl ValueError
                   else
                     let x_padded =
                           \<lparr>shape = [N, C, H_padded, W_padded],
                            data = scatter_add (replicate (N * C * H_padded * W_padded) 0)
                                     (add_at_updates ix cols N C H_padded W_padded R L M)\<rparr>
                     in if pad_h \<noteq> 0 \<or> pad_w \<noteq> 0 then
                          Inr (tabulate4 N C (if pad_h = 0 then 0 else H) (if pad_w = 0 then 0 else W)
                                 (\<lambda>n c h w. at4 x_padded n c (h + pad_h) (w + pad_w)))
                        else Inr x_padded))
      | _ \<Rightarrow> Inl ValueError)"

subsection \<open>The index arrays in closed form\<close>









section \<open>ConvTranspose2d.forward\<close>

text \<open>\<open>a.transpose(perm)\<close>, and \<open>a.reshape(r, -1)\<close> with the second side inferred.\<close>

definition nd_transpose :: "nat list \<Rightarrow> 'a ndarray \<Rightarrow> 'a ndarray" where
  "nd_transpose perm a =
     (let s = shape a; s' = map (\<lambda>ax. s ! ax) perm
      in \<lparr>shape = s',
          data = map (\<lambda>p. data a ! ravel s (map (\<lambda>ax. unravel s' p ! length (takeWhile (\<lambda>x. x \<noteq> ax) perm))
                                                [0..<length s]))
                     [0..<prod_list s']\<rparr>)"

definition reshape_rows :: "'a ndarray \<Rightarrow> nat \<Rightarrow> error + 'a ndarray" where
  "reshape_rows a r =
     (if r = 0 \<or> length (data a) mod r \<noteq> 0 then Inl ValueError
      else Inr (a\<lparr>shape := [r, length (data a) div r]\<rparr>))"

text \<open>
  The first two assignments of \<open>forward\<close> are \<^verbatim>\<open>n, c, h, w = inp.shape\<close> and
  \<^verbatim>\<open>d_w, d_h = self.weight.value.shape[2], self.weight.value.shape[3]\<close>, for a weight of
  shape (in_channels, out_channels, kh, kw). The sizes handed to \<open>col2im_indices\<close> are
  natural numbers here: a negative \<open>out_h\<close> or \<open>out_w\<close> is outside this model.
\<close>

definition ConvTranspose2d_forward :: "ConvTranspose2d \<Rightarrow> real ndarray \<Rightarrow> error + real ndarray" where
  "ConvTranspose2d_forward self inp =
     (case shape inp of
        [n, c, h, w] \<Rightarrow>
          if length (shape (pvalue (ct_weight self))) < 4 then Inl IndexError
          else
            let d_w = shape (pvalue (ct_weight self)) ! 2;
                d_h = shape (pvalue (ct_weight self)) ! 3;
                out_h = (int h - 1) * int (fst (ct_stride self)) - 2 * int (fst (ct_padding self))
                          + int d_h + int (fst (ct_output_padding self));
                out_w = (int w - 1) * int (snd (ct_stride self)) - 2 * int (snd (ct_padding self))
                          + int d_w + int (snd (ct_output_padding self))
            in
            bindE (reshape_rows (nd_transpose [1, 0, 2, 3] inp) c) (\<lambda>inp_reshaped.
            bindE (reshape_rows (pvalue (ct_weight self)) (ct_in_channels self)) (\<lambda>wr.
            bindE (dot (nd_T wr) inp_reshaped) (\<lambda>out_cols.
            if out_h < 0 \<or> out_w < 0 then Inl OutsideModel
            else
              bindE (col2im_indices out_cols [n, ct_out_channels self, nat out_h, nat out_w]
                       d_h d_w (ct_padding self) (ct_stride self)) (\<lambda>out.
              bindE (reshape (pvalue (ct_bias self)) [1, ct_out_channels self, 1, 1]) (\<lambda>b.
              nd_inplace (+) out b)))))
      | _ \<Rightarrow> Inl ValueError)"

definition example_ConvTranspose2d :: ConvTranspose2d where
  "example_ConvTranspose2d =
     \<lparr>ct_in_channels = 1, ct_out_channels = 1, ct_kernel_size = (3, 1), ct_stride = (1, 1),
      ct_padding = (0, 0), ct_output_padding = (0, 0),
      ct_weight = new_Parameter \<lparr>shape = [1, 1, 3, 1], data = [1, 2, 3]\<rparr> False,
      ct_bias = new_Parameter \<lparr>shape = [1], data = [0]\<rparr> False\<rparr>"

section \<open>Properties of the array operations\<close>

lemma broadcast_dims_same: "broadcast_dims s s = Some s"
  by (induction s) auto

lemma broadcast_shapes_same: "broadcast_shapes s s = Some s"
  by (simp add: broadcast_shapes_def broadcast_dims_same)

lemma length_unravel: "length (unravel s p) = length s"
  by (induction s arbitrary: p) auto

lemma ravel_unravel: "p < prod_list s \<Longrightarrow> ravel s (unravel s p) = p"
proof (induction s arbitrary: p)
  case Nil
  then show ?case by simp
next
  case (Cons d ds)
  then have pos: "0 < prod_list ds"
    by (cases "prod_list ds = 0") auto
  then have "p mod prod_list ds < prod_list ds" by simp
  then have "ravel ds (unravel ds (p mod prod_list ds)) = p mod prod_list ds"
    by (rule Cons.IH)
  then show ?case by simp
qed

lemma unit_dims_unravel:
  "p < prod_list s \<Longrightarrow> map2 (\<lambda>d i. if d = 1 then 0 else i) s (unravel s p) = unravel s p"
proof (induction s arbitrary: p)
  case Nil
  then show ?case by simp
next
  case (Cons d ds)
  then have pos: "0 < prod_list ds"
    by (cases "prod_list ds = 0") auto
  then have m: "p mod prod_list ds < prod_list ds" by simp
  have "p div prod_list ds < d"
    using Cons.prems pos by (simp add: less_mult_imp_div_less mult.commute)
  then have "d = 1 \<Longrightarrow> p div prod_list ds = 0" by simp
  with Cons.IH [OF m] show ?case by simp
qed

lemma bc_index_same: "p < prod_list s \<Longrightarrow> bc_index s (unravel s p) = p"
  unfolding bc_index_def by (simp only: length_unravel diff_self_eq_0 drop_0 unit_dims_unravel ravel_unravel)

lemma nd_binop_same_shape:
  assumes "shape a = shape b"
  shows "nd_binop f a b =
    Inr \<lparr>shape = shape a, data = map (\<lambda>p. f (data a ! p) (data b ! p)) [0..<prod_list (shape a)]\<rparr>"
  using assms by (simp add: nd_binop_def broadcast_shapes_same bc_index_same)

lemma nd_binop_wf:
  assumes "shape a = shape b" "nd_wf a" "nd_wf b"
  shows "nd_binop f a b = Inr \<lparr>shape = shape a, data = map2 f (data a) (data b)\<rparr>"
proof -
  have "length (data a) = prod_list (shape a)" "length (data b) = prod_list (shape a)"
    using assms by (simp_all add: nd_wf_def)
  then have "map (\<lambda>p. f (data a ! p) (data b ! p)) [0..<prod_list (shape a)] = map2 f (data a) (data b)"
    by (intro nth_equalityI) simp_all
  then show ?thesis using nd_binop_same_shape [OF assms(1), of f] by simp
qed

lemmas nd_defs = bindE_def nd_binop_def nd_inplace_def nd_map_def nd_full_def scalar_def
  sum_axis_def reduce_axis_def max_axis_keep_def sum_axes023_def count_axes023_def
  mean_axes023_def var_axes023_def sum_axes023_drop_def mean_axis0_def var_axis0_def
  reshape_def squeeze_last_def newaxis_last_def nd_T_def broadcast_shapes_def bc_index_def
  blend_def new_Parameter_def

section \<open>Softmax: overflow of the exponential\<close>

lemma exp_2000_overflows: "f64_huge \<le> exp 2000"
proof -
  have "(2::real) \<le> exp 1" using exp_ge_add_one_self [of 1] by simp
  then have "(2::real) ^ 2000 \<le> exp 1 ^ 2000" by (intro power_mono) simp_all
  also have "exp (1::real) ^ 2000 = exp 2000"
    using exp_of_nat_mult [of 2000 "1::real"] by simp
  finally have "(2::real) ^ 2000 \<le> exp 2000" .
  moreover have "(2::real) ^ 1024 \<le> 2 ^ 2000" by (intro power_increasing) simp_all
  ultimately show ?thesis unfolding f64_huge_def by linarith
qed

lemma two_less_huge: "2 < f64_huge"
proof -
  have "(2::real) ^ 1 < 2 ^ 1024" by (intro power_strict_increasing) simp_all
  then show ?thesis unfolding f64_huge_def by simp
qed

lemma one_not_huge: "\<not> f64_huge \<le> 1"
  using two_less_huge by linarith

lemma f64_exp_2000: "f64_exp 2000 = PosInf"
  by (simp add: f64_exp_def exp_2000_overflows)

lemma f64_exp_0: "f64_exp 0 = Fin 1"
  by (simp add: f64_exp_def one_not_huge)

lemma f64_exp_neg: "f64_exp (- 2000) = Fin (exp (- 2000))"
proof -
  have "exp (- 2000 :: real) \<le> 1" by simp
  then have "\<not> f64_huge \<le> exp (- 2000)" using two_less_huge by linarith
  then show ?thesis by (simp add: f64_exp_def)
qed

lemma SoftmaxLayer_forward_f64_nan:
  "SoftmaxLayer_forward_f64 \<lparr>shape = [1, 2, 1], data = [2000, 0]\<rparr> =
     Inr \<lparr>shape = [1, 2, 1], data = [NaN, Fin 0]\<rparr>"
  by (simp add: SoftmaxLayer_forward_f64_def nd_defs upt_rec Let_def f64_exp_2000 f64_exp_0)

lemma softmax_f64_finite:
  "softmax_f64 \<lparr>shape = [1, 2, 1], data = [2000, 0]\<rparr> 1 =
     Inr \<lparr>shape = [1, 2, 1],
          data = [Fin (1 / (1 + exp (- 2000))), Fin (exp (- 2000) / (1 + exp (- 2000)))]\<rparr>"
proof -
  have e: "exp (- 2000 :: real) \<le> 1" by simp
  have a: "\<not> f64_huge \<le> 1 + exp (- 2000)" using two_less_huge e by linarith
  have p: "(0::real) < 1 + exp (- 2000)" by (simp add: add_pos_pos)
  have "1 / (1 + exp (- 2000 :: real)) \<le> 1" using p by simp
  then have b: "\<not> f64_huge \<le> 1 / (1 + exp (- 2000))" using two_less_huge by linarith
  have "exp (- 2000 :: real) / (1 + exp (- 2000)) \<le> 1" using p by simp
  then have c: "\<not> f64_huge \<le> exp (- 2000) / (1 + exp (- 2000))"
    using two_less_huge by linarith
  have d: "1 + exp (- 2000 :: real) \<noteq> 0" using p by simp
  show ?thesis
    using a b c d one_not_huge
    by (simp add: softmax_f64_def nd_defs upt_rec Let_def f64_exp_neg f64_exp_0)
qed

text \<open>
  C1. \<open>SoftmaxLayer.forward\<close> exponentiates the logits themselves; it does not subtract
  the sample's maximum first. For the single sample with logits (2000, 0) the
  exponential of the first logit overflows and the layer returns (nan, 0), while the
  max-subtracting \<open>softmax\<close> of \<^verbatim>\<open>functional.py\<close> returns two finite probabilities, the
  first of them \<open>1 / (1 + exp (- 2000))\<close>.
\<close>

theorem SoftmaxLayer_forward_overflows:
  "SoftmaxLayer_forward_f64 \<lparr>shape = [1, 2, 1], data = [2000, 0]\<rparr> =
     Inr \<lparr>shape = [1, 2, 1], data = [NaN, Fin 0]\<rparr>
   \<and> softmax_f64 \<lparr>shape = [1, 2, 1], data = [2000, 0]\<rparr> 1 =
     Inr \<lparr>shape = [1, 2, 1],
          data = [Fin (1 / (1 + exp (- 2000))), Fin (exp (- 2000) / (1 + exp (- 2000)))]\<rparr>"
  using SoftmaxLayer_forward_f64_nan softmax_f64_finite by (rule conjI)

section \<open>Parameter gradients: accumulated or overwritten\<close>

text \<open>\<open>Linear.backward\<close> adds the new gradients to the stored ones.\<close>

lemma Linear_backward_accumulates:
  assumes "Linear_backward self g = Inr (grad_input, self')"
  shows "\<exists>prev_inp grad_weight grad_bias.
           lin_prev_inp self = Some prev_inp \<and>
           dot (nd_T g) prev_inp = Inr grad_weight \<and>
           sum_axis 0 False g = Inr grad_bias \<and>
           nd_inplace (+) (grad (weight self)) grad_weight = Inr (grad (weight self')) \<and>
           nd_inplace (+) (grad (bias self)) grad_bias = Inr (grad (bias self'))"
  using assms
  by (auto simp: Linear_backward_def bindE_def split: sum.splits option.splits)

text \<open>
  Both normalisation layers assign the new gradients: the result of \<open>backward\<close> does not
  depend on the gradients stored before the call.
\<close>

lemma BatchNormLayer_backward_overwrites:
  "BatchNormLayer_backward
     (self\<lparr>bn_gamma := (bn_gamma self)\<lparr>grad := a\<rparr>, bn_beta := (bn_beta self)\<lparr>grad := b\<rparr>\<rparr>) g
   = BatchNormLayer_backward self g"
  by (simp add: BatchNormLayer_backward_def Let_def
      cong: option.case_cong prod.case_cong if_cong)

lemma BatchNorm2d_backward_overwrites:
  "BatchNorm2d_backward
     (self\<lparr>b2_gamma := (b2_gamma self)\<lparr>grad := a\<rparr>, b2_beta := (b2_beta self)\<lparr>grad := b\<rparr>\<rparr>) g
   = BatchNorm2d_backward self g"
  by (simp add: BatchNorm2d_backward_def Let_def
      cong: option.case_cong prod.case_cong if_cong)

text \<open>
  C2. A fresh \<open>BatchNormLayer(1)\<close> (eps 1e-5, momentum 0.9) is run on the batch (1, 3)
  with incoming gradient (1, 2). After the first forward and backward, \<open>beta.grad\<close> is
  (3). After a second forward and backward with the same data it is still (3):
  accumulation would give (6).
\<close>

theorem BatchNormLayer_backward_twice:
  "map_sum id (\<lambda>(dx, self). data (grad (bn_beta self)))
     (bindE (BatchNormLayer_forward (new_BatchNormLayer 1 (1/100000) (9/10))
               \<lparr>shape = [2, 1, 1], data = [1, 3]\<rparr> True) (\<lambda>(out, self).
      BatchNormLayer_backward self \<lparr>shape = [2, 1, 1], data = [1, 2]\<rparr>)) = Inr [3]
   \<and>
   map_sum id (\<lambda>(dx, self). data (grad (bn_beta self)))
     (bindE (BatchNormLayer_forward (new_BatchNormLayer 1 (1/100000) (9/10))
               \<lparr>shape = [2, 1, 1], data = [1, 3]\<rparr> True) (\<lambda>(out, self).
      bindE (BatchNormLayer_backward self \<lparr>shape = [2, 1, 1], data = [1, 2]\<rparr>) (\<lambda>(dx, self).
      bindE (BatchNormLayer_forward self \<lparr>shape = [2, 1, 1], data = [1, 3]\<rparr> True) (\<lambda>(out, self).
      BatchNormLayer_backward self \<lparr>shape = [2, 1, 1], data = [1, 2]\<rparr>)))) = Inr [3]"
  by (simp add: BatchNormLayer_forward_def BatchNormLayer_backward_def new_BatchNormLayer_def
      nd_defs upt_rec Let_def)

section \<open>LeakyReLU: the derivative mask\<close>

lemma LeakyReLU_mask_nonneg_leak:
  assumes "0 \<le> lk"
  shows "map (\<lambda>x. if x \<ge> 0 then 1 else x) (map (\<lambda>x. if x < 0 then lk else x) xs)
         = replicate (length xs) (1::real)"
  using assms by (induction xs) auto

lemma LeakyReLU_mask_neg_leak:
  assumes "lk < 0"
  shows "map (\<lambda>x. if x \<ge> 0 then 1 else x) (map (\<lambda>x. if x < 0 then lk else x) xs)
         = map (\<lambda>x. if x < 0 then lk else (1::real)) xs"
  using assms by (induction xs) auto

text \<open>
  With a leak that is not negative, the entries the first assignment sets to \<open>leak\<close>
  pass the second test and become 1: the mask is 1 everywhere and the gradient is
  returned unchanged.
\<close>

lemma LeakyReLU_backward_nonneg_leak:
  assumes "0 \<le> leak self" and "lrelu_prev_inp self = Some p"
    and "nd_wf p" and "nd_wf g" and "shape g = shape p"
  shows "LeakyReLULayer_backward self g =
         Inr (g, self\<lparr>lrelu_prev_inp := Some (nd_full (shape p) 1)\<rparr>)"
proof -
  let ?p2 = "nd_map (\<lambda>x. if x \<ge> 0 then 1 else x) (nd_map (\<lambda>x. if x < 0 then leak self else x) p)"
  have p2: "?p2 = nd_full (shape p) 1"
    using assms(3) LeakyReLU_mask_nonneg_leak [OF assms(1), of "data p"]
    by (simp add: nd_map_def nd_full_def nd_wf_def del: map_map)
  have "nd_binop (*) g (nd_full (shape p) (1::real)) =
        Inr \<lparr>shape = shape g, data = map2 (*) (data g) (replicate (prod_list (shape p)) 1)\<rparr>"
    using assms(4,5) by (subst nd_binop_wf) (simp_all add: nd_full_def nd_wf_def)
  moreover have "map2 (*) (data g) (replicate (prod_list (shape p)) 1) = data g"
    using assms(4,5) by (intro nth_equalityI) (simp_all add: nd_wf_def)
  ultimately have "nd_binop (*) g (nd_full (shape p) (1::real)) = Inr g" by simp
  then show ?thesis
    using assms(2) p2 by (simp add: LeakyReLULayer_backward_def bindE_def Let_def)
qed

text \<open>
  C3. The claim asks for a mask that is \<open>leak\<close> where the cached input was negative.
  With the default leak 0.01, input (-1, 2) and incoming gradient (1, 1) the layer
  returns (1, 1), not (0.01, 1): the mask at the negative input is 1.
\<close>

theorem LeakyReLU_backward_default_leak:
  "bindE (LeakyReLULayer_forward \<lparr>lrelu_prev_inp = None, leak = 1/100\<rparr> \<lparr>shape = [2], data = [-1, 2]\<rparr>)
         (\<lambda>(out, self). LeakyReLULayer_backward self \<lparr>shape = [2], data = [1, 1]\<rparr>)
   = Inr (\<lparr>shape = [2], data = [1, 1]\<rparr>,
          \<lparr>lrelu_prev_inp = Some \<lparr>shape = [2], data = [1, 1]\<rparr>, leak = 1/100\<rparr>)"
  by code_simp

section \<open>Dropout: the keep-mask\<close>

lemma sample_mult:
  assumes "list_all (\<lambda>m. m = 0 \<or> m = (1::nat)) ms"
  shows "map2 (\<lambda>x m. x * real m) xs ms = map2 (\<lambda>x m. if m = 1 then x else (0::real)) xs ms"
  using assms by (intro map_cong refl) (auto dest!: set_zip_rightD simp: list_all_iff)

text \<open>
  C4, as stated, fails: a kept entry is passed through as it is, not divided by
  \<open>1 - p\<close>. With rate 1/2, input (2) and sampled mask (1) the output is (2), while
  2 / (1 - 1/2) = 4.
\<close>

theorem Dropout_forward_not_rescaled:
  "map_sum id (data \<circ> fst)
     (DropoutLayer_forward \<lparr>dropout_rate = 1/2, dl_filter = None, dl_if_train = True\<rparr>
        \<lparr>shape = [1], data = [1]\<rparr> \<lparr>shape = [1], data = [2]\<rparr> True) = Inr [2]
   \<and> (2::real) \<noteq> 2 / (1 - 1/2)"
  by code_simp

text \<open>
  C4, amended. For every input, every rate in [0, 1) and every sampled 0/1 mask of the
  input's shape: forward in train mode returns the input with the kept entries unchanged
  and the dropped entries 0, and caches the mask; forward in eval mode returns the input
  unchanged; backward multiplies the gradient by the cached mask after a train-mode
  forward and returns the gradient unchanged after an eval-mode forward.
\<close>

theorem Dropout_binary_mask:
  assumes "0 \<le> dropout_rate self" and "dropout_rate self < 1"
    and "nd_wf inp" and "is_sample inp sampled"
    and "nd_wf g" and "shape g = shape inp"
  shows "DropoutLayer_forward self sampled inp True =
           Inr (\<lparr>shape = shape inp,
                 data = map2 (\<lambda>x m. if m = 1 then x else 0) (data inp) (data sampled)\<rparr>,
                self\<lparr>dl_if_train := True, dl_filter := Some sampled\<rparr>)
       \<and> DropoutLayer_forward self sampled inp False = Inr (inp, self\<lparr>dl_if_train := False\<rparr>)
       \<and> DropoutLayer_backward (self\<lparr>dl_if_train := True, dl_filter := Some sampled\<rparr>) g =
           Inr \<lparr>shape = shape g, data = map2 (\<lambda>x m. x * real m) (data g) (data sampled)\<rparr>
       \<and> DropoutLayer_backward (self\<lparr>dl_if_train := False\<rparr>) g = Inr g"
proof -
  have s: "shape sampled = shape inp" "nd_wf sampled"
    and b: "list_all (\<lambda>m. m = 0 \<or> m = 1) (data sampled)"
    using assms(4) by (simp_all add: is_sample_def)
  have "nd_binop (\<lambda>x m. x * real m) inp sampled =
        Inr \<lparr>shape = shape inp, data = map2 (\<lambda>x m. x * real m) (data inp) (data sampled)\<rparr>"
    using s assms(3) by (intro nd_binop_wf) simp_all
  then have train: "DropoutLayer_forward self sampled inp True =
           Inr (\<lparr>shape = shape inp,
                 data = map2 (\<lambda>x m. if m = 1 then x else 0) (data inp) (data sampled)\<rparr>,
                self\<lparr>dl_if_train := True, dl_filter := Some sampled\<rparr>)"
    using assms(1,2) sample_mult [OF b]
    by (simp add: DropoutLayer_forward_def bindE_def)
  have eval: "DropoutLayer_forward self sampled inp False = Inr (inp, self\<lparr>dl_if_train := False\<rparr>)"
    by (simp add: DropoutLayer_forward_def)
  have "nd_binop (\<lambda>x m. x * real m) g sampled =
        Inr \<lparr>shape = shape g, data = map2 (\<lambda>x m. x * real m) (data g) (data sampled)\<rparr>"
    using s assms(5,6) by (intro nd_binop_wf) simp_all
  then have btrain: "DropoutLayer_backward (self\<lparr>dl_if_train := True, dl_filter := Some sampled\<rparr>) g =
           Inr \<lparr>shape = shape g, data = map2 (\<lambda>x m. x * real m) (data g) (data sampled)\<rparr>"
    by (simp add: DropoutLayer_backward_def)
  have beval: "DropoutLayer_backward (self\<lparr>dl_if_train := False\<rparr>) g = Inr g"
    by (simp add: DropoutLayer_backward_def)
  from train eval btrain beval show ?thesis by blast
qed

theorem Dropout_binary_mask_witness:
  "DropoutLayer_forward \<lparr>dropout_rate = 3/10, dl_filter = None, dl_if_train = True\<rparr>
      \<lparr>shape = [3], data = [1, 0, 1]\<rparr> \<lparr>shape = [3], data = [5, 6, 7]\<rparr> True =
     Inr (\<lparr>shape = [3], data = [5, 0, 7]\<rparr>,
          \<lparr>dropout_rate = 3/10, dl_filter = Some \<lparr>shape = [3], data = [1, 0, 1]\<rparr>, dl_if_train = True\<rparr>)
   \<and> DropoutLayer_backward
      \<lparr>dropout_rate = 3/10, dl_filter = Some \<lparr>shape = [3], data = [1, 0, 1]\<rparr>, dl_if_train = True\<rparr>
      \<lparr>shape = [3], data = [2, 3, 4]\<rparr> = Inr \<lparr>shape = [3], data = [2, 0, 4]\<rparr>"
  using Dropout_binary_mask [of "\<lparr>dropout_rate = 3/10, dl_filter = None, dl_if_train = True\<rparr>"
      "\<lparr>shape = [3], data = [5, 6, 7]\<rparr>" "\<lparr>shape = [3], data = [1, 0, 1]\<rparr>"
      "\<lparr>shape = [3], data = [2, 3, 4]\<rparr>"]
  by (simp add: nd_wf_def is_sample_def)

section \<open>Sequential: which layers receive the train flag\<close>

text \<open>
  The dropout layer and \<open>BatchNormLayer\<close> are called with the container's mode.
  \<open>BatchNorm2d\<close> is neither of the two classes the loop tests for: it is called without
  the keyword and runs with its default \<^verbatim>\<open>train=True\<close>, whatever the container's mode.
\<close>

lemma Sequential_forward_DropoutLayer_flag:
  "Sequential_forward draw \<lparr>layers = [L_DropoutLayer d], seq_if_train = mode\<rparr> inp =
     bindE (DropoutLayer_forward d (draw 0 (shape inp)) inp mode) (\<lambda>(out, d').
       Inr (out, \<lparr>layers = [L_DropoutLayer d'], seq_if_train = mode\<rparr>))"
  by (simp add: Sequential_forward_def with_layer_def train_default_def bindE_def
      split: sum.splits prod.splits)

lemma Sequential_forward_BatchNormLayer_flag:
  "Sequential_forward draw \<lparr>layers = [L_BatchNormLayer bn], seq_if_train = mode\<rparr> inp =
     bindE (BatchNormLayer_forward bn inp mode) (\<lambda>(out, bn').
       Inr (out, \<lparr>layers = [L_BatchNormLayer bn'], seq_if_train = mode\<rparr>))"
  by (simp add: Sequential_forward_def with_layer_def train_default_def bindE_def
      split: sum.splits prod.splits)

lemma Sequential_forward_BatchNorm2d_default:
  "Sequential_forward draw \<lparr>layers = [L_BatchNorm2d bn], seq_if_train = mode\<rparr> inp =
     bindE (BatchNorm2d_forward bn inp True) (\<lambda>(out, bn').
       Inr (out, \<lparr>layers = [L_BatchNorm2d bn'], seq_if_train = mode\<rparr>))"
  by (simp add: Sequential_forward_def with_layer_def train_default_def bindE_def
      split: sum.splits prod.splits)

text \<open>
  C8. A \<open>Sequential\<close> holding one fresh \<open>BatchNorm2d(1)\<close> (eps 1e-5, momentum 0.9) is put
  in eval mode and run on the batch (1, 3) of shape 2 x 1 x 1 x 1. The layer's running
  mean becomes 0.2 = 0.9 * 0 + 0.1 * 2, the update of a train-mode forward; the layer's
  forward with \<open>train=False\<close> leaves the running mean at 0.
\<close>

theorem Sequential_eval_BatchNorm2d_trains:
  "map_sum id (\<lambda>(out, self). map (\<lambda>l. case l of L_BatchNorm2d b \<Rightarrow> data (b2_running_mean b) | _ \<Rightarrow> [])
                                  (layers self))
     (Sequential_forward draw
        (Sequential_eval \<lparr>layers = [L_BatchNorm2d (new_BatchNorm2d 1 (1/100000) (9/10))],
                          seq_if_train = True\<rparr>)
        \<lparr>shape = [2, 1, 1, 1], data = [1, 3]\<rparr>) = Inr [[1/5]]
   \<and>
   map_sum id (\<lambda>(out, self). data (b2_running_mean self))
     (BatchNorm2d_forward (new_BatchNorm2d 1 (1/100000) (9/10))
        \<lparr>shape = [2, 1, 1, 1], data = [1, 3]\<rparr> False) = Inr [0]"
  by (simp add: Sequential_forward_def Sequential_eval_def with_layer_def train_default_def
      BatchNorm2d_forward_def new_BatchNorm2d_def nd_defs upt_rec Let_def)

section \<open>Serialisation: the round trip through a Sequential\<close>

lemmas example_defs = Parameter_of_def Linear_attrs_def BatchNorm2d_attrs_def Sequential_attrs_def
  example_Linear_attrs_def example_Linear_def example_BatchNorm2d_attrs_def
  example_BatchNorm2d_def example_Sequential_def

lemma hd_split_on: "hd (split_on c (x # xs)) = (if x = c then [] else x # hd (split_on c xs))"
  by (cases "split_on c xs") simp_all

lemma nth0_split_on: "split_on c s ! 0 = hd (split_on c s)"
  by (simp add: hd_conv_nth)

text \<open>On a module that inherits both methods the round trip succeeds and changes nothing.\<close>

lemma Module_round_trip_example:
  "bindE (state_dict example_Linear) (load_state_dict example_Linear) = Inr example_Linear"
  by code_simp

text \<open>
  C6. For \<open>Sequential(Linear(1, 1))\<close> the export succeeds, with keys that start with
  \<open>layers.\<close>; the import of that very mapping raises ValueError, because
  \<open>Sequential.load_state_dict\<close> reads the first component of each key as the layer index.
\<close>

theorem Sequential_round_trip_raises:
  "state_dict example_Sequential =
     Inr [(''layers.0.bias.value'', Arr \<lparr>shape = [1], data = [3]\<rparr>),
          (''layers.0.bias.grad'', Arr \<lparr>shape = [1], data = [0]\<rparr>),
          (''layers.0.weight.value'', Arr \<lparr>shape = [1, 1], data = [2]\<rparr>),
          (''layers.0.weight.grad'', Arr \<lparr>shape = [1, 1], data = [0]\<rparr>)]
   \<and> bindE (state_dict example_Sequential) (load_state_dict example_Sequential) = Inl ValueError"
  by code_simp

section \<open>Serialisation: unknown keys\<close>



lemma Sequential_load_not_int:
  assumes "py_int (hd (split_on CHR ''.'' key)) = None"
  shows "load_state_dict (Sequential_obj ls attrs) ((key, v) # rest) = Inl ValueError"
  using assms by (simp add: Let_def nth0_split_on)














subsection \<open>The round trip through a Sequential fails in general\<close>

lemma keys_add_prefixed:
  "fst ` set (add_prefixed pre items result) \<subseteq> fst ` set result \<union> (\<lambda>k. pre @ k) ` fst ` set items"
proof (induction items arbitrary: result)
  case Nil
  then show ?case by (simp add: add_prefixed_def)
next
  case (Cons kv items)
  obtain k v where kv: "kv = (k, v)" by (cases kv)
  have "add_prefixed pre (kv # items) result = add_prefixed pre items (AList.update (pre @ k) v result)"
    by (simp add: add_prefixed_def kv)
  moreover have "fst ` set (AList.update (pre @ k) v result) = {pre @ k} \<union> fst ` set result"
    by (rule dom_update)
  ultimately show ?case
    using Cons.IH [of "AList.update (pre @ k) v result"] kv by auto
qed

lemma Sequential_state_dict_loop_keys:
  assumes "Sequential_state_dict_loop idx ls result = Inr sd"
    and "\<forall>k \<in> fst ` set result. \<exists>t. k = ''layers.'' @ t"
  shows "\<forall>k \<in> fst ` set sd. \<exists>t. k = ''layers.'' @ t"
  using assms
proof (induction ls arbitrary: idx result)
  case Nil
  then show ?case by simp
next
  case (Cons layer rest)
  show ?case
  proof (cases "is_Module layer")
    case False
    with Cons.prems have "Sequential_state_dict_loop (Suc idx) rest result = Inr sd" by simp
    then show ?thesis using Cons.IH Cons.prems(2) by blast
  next
    case True
    with Cons.prems(1) obtain items where
      it: "state_dict layer = Inr items"
      and rec: "Sequential_state_dict_loop (Suc idx) rest
                  (add_prefixed (''layers.'' @ str_nat idx @ ''.'') items result) = Inr sd"
      by (auto simp: bindE_def split: sum.splits)
    have "\<forall>k \<in> fst ` set (add_prefixed (''layers.'' @ str_nat idx @ ''.'') items result).
            \<exists>t. k = ''layers.'' @ t"
    proof
      fix k assume "k \<in> fst ` set (add_prefixed (''layers.'' @ str_nat idx @ ''.'') items result)"
      then have "k \<in> fst ` set result \<or>
                 k \<in> (\<lambda>k. (''layers.'' @ str_nat idx @ ''.'') @ k) ` fst ` set items"
        using keys_add_prefixed [of "''layers.'' @ str_nat idx @ ''.''" items result] by blast
      then show "\<exists>t. k = ''layers.'' @ t"
      proof
        assume "k \<in> fst ` set result"
        then show ?thesis using Cons.prems(2) by blast
      next
        assume "k \<in> (\<lambda>k. (''layers.'' @ str_nat idx @ ''.'') @ k) ` fst ` set items"
        then obtain k' where "k = (''layers.'' @ str_nat idx @ ''.'') @ k'" by blast
        then have "k = ''layers.'' @ (str_nat idx @ ''.'' @ k')" by simp
        then show ?thesis by blast
      qed
    qed
    with rec show ?thesis using Cons.IH by blast
  qed
qed

lemma py_int_layers: "py_int ''layers'' = None"
  by code_simp

lemma hd_split_layers: "hd (split_on CHR ''.'' (''layers.'' @ t)) = ''layers''"
  by (simp add: hd_split_on)

text \<open>
  Whenever the export of a \<open>Sequential\<close> yields at least one entry, the import of the
  exported mapping raises ValueError.
\<close>

lemma Sequential_round_trip_never_succeeds:
  assumes "state_dict (Sequential_obj (PyList ls) attrs) = Inr sd" and "sd \<noteq> []"
  shows "load_state_dict (Sequential_obj (PyList ls) attrs) sd = Inl ValueError"
proof -
  from assms(2) obtain k v rest where sd: "sd = (k, v) # rest"
    by (cases sd) auto
  have "\<forall>k \<in> fst ` set sd. \<exists>t. k = ''layers.'' @ t"
    using assms(1) by (intro Sequential_state_dict_loop_keys [of 0 ls "[]" sd]) simp_all
  then obtain t where "k = ''layers.'' @ t" using sd by auto
  then have "py_int (hd (split_on CHR ''.'' k)) = None"
    by (simp only: hd_split_layers py_int_layers)
  then show ?thesis unfolding sd by (rule Sequential_load_not_int)
qed

section \<open>The patch transform: im2col and col2im\<close>

subsection \<open>Tables built by nested loops\<close>







subsection \<open>Four-dimensional indexing\<close>




lemma tabulate4_shape [simp]: "shape (tabulate4 N C H W f) = [N, C, H, W]"
  by (simp add: tabulate4_def)




subsection \<open>Scatter-add\<close>

lemma scatter_add_length [simp]: "length (scatter_add buf ups) = length buf"
  unfolding scatter_add_def by (induction ups arbitrary: buf) (auto split: prod.splits)


subsection \<open>The index arrays in closed form\<close>


subsection \<open>The indices stay inside the padded image\<close>






subsection \<open>Sums over the update list\<close>




subsection \<open>col2im in closed form\<close>




subsection \<open>Which entry of the column matrix lands on a given element\<close>







subsection \<open>Tables are determined by their entries\<close>




subsection \<open>im2col in closed form\<close>





subsection \<open>The round trip\<close>




text \<open>
  With exactly one of the two paddings 0 the slice \<^verbatim>\<open>pad:-pad\<close> of the final trim is empty
  along the axis whose padding is 0, and an axis of the result has length 0.
\<close>

lemma col2im_one_zero_padding:
  "bindE (im2col_indices \<lparr>shape = [1, 1, 1, 2], data = [1, 2]\<rparr> 1 1 (0, 1) (1, 1))
     (\<lambda>cols. col2im_indices cols [1, 1, 1, 2] 1 1 (0, 1) (1, 1))
   = Inr \<lparr>shape = [1, 1, 0, 2], data = []\<rparr>"
  by code_simp




section \<open>ConvTranspose2d: the output size with a kernel that is not square\<close>

text \<open>
  With a square kernel the two names \<open>d_w\<close> and \<open>d_h\<close> hold the same number and the
  output has the size of the transposed convolution: a 2 x 2 input and a 2 x 2 kernel
  with stride 1 give a 3 x 3 output.
\<close>

lemma ConvTranspose2d_forward_square_kernel:
  "ConvTranspose2d_forward
     (example_ConvTranspose2d\<lparr>ct_kernel_size := (2, 2),
        ct_weight := new_Parameter \<lparr>shape = [1, 1, 2, 2], data = [1, 2, 3, 4]\<rparr> False\<rparr>)
     \<lparr>shape = [1, 1, 2, 2], data = [1, 10, 100, 1000]\<rparr>
   = Inr \<lparr>shape = [1, 1, 3, 3], data = [1, 12, 20, 103, 1234, 2040, 300, 3400, 4000]\<rparr>"
  by code_simp

text \<open>
  C9. \<open>example_ConvTranspose2d\<close> has a kernel of height 3 and width 1 (weight of shape
  (1, 1, 3, 1)), stride 1, no padding and no output padding. On an input of shape
  (1, 1, 2, 2) the claimed output height is (2 - 1) * 1 - 0 + 3 + 0 = 4 and the claimed
  width is (2 - 1) * 1 - 0 + 1 + 0 = 2. The code returns an array of shape (1, 1, 2, 4):
  it takes the kernel height for \<open>d_w\<close> and the kernel width for \<open>d_h\<close>.
\<close>

theorem ConvTranspose2d_forward_nonsquare_kernel:
  "ConvTranspose2d_forward example_ConvTranspose2d \<lparr>shape = [1, 1, 2, 2], data = [1, 10, 100, 1000]\<rparr>
     = Inr \<lparr>shape = [1, 1, 2, 4], data = [1, 12, 23, 30, 100, 1200, 2300, 3000]\<rparr>"
  by code_simp

section \<open>Unimplemented backward passes\<close>

text \<open>
  C10. Calling backward on Conv2d, ConvTranspose2d, MaxPool2d or AdaptiveAvgPool2d raises
  NotImplementedError, whatever the layer's state and the incoming gradient: no gradient
  and no updated layer is ever returned.
\<close>

theorem unimplemented_backward_raises:
  "Conv2d_backward c dout = Inl NotImplementedError \<and>
   ConvTranspose2d_backward t dout = Inl NotImplementedError \<and>
   MaxPool2d_backward m dout = Inl NotImplementedError \<and>
   AdaptiveAvgPool2d_backward a dout = Inl NotImplementedError"
  by (simp add: Conv2d_backward_def ConvTranspose2d_backward_def
      MaxPool2d_backward_def AdaptiveAvgPool2d_backward_def)

end
